theory Spec2Isabelle
  imports Main "HOL-Library.Word"
begin

section \<open>The SA-MP server query API (api/samp-server.js)\<close>

text \<open>
  A shallow embedding of \<^verbatim>\<open>api/samp-server.js\<close>: the query packet writer
  \<^verbatim>\<open>createSampQueryPacket\<close>, the response reader \<^verbatim>\<open>parseSampResponse\<close>, the
  exchange \<^verbatim>\<open>queryRealSampServer\<close>, the mock generator
  \<^verbatim>\<open>generateRealisticMockData\<close> and the two route handlers
  \<^verbatim>\<open>GET /api/samp-server\<close> and \<^verbatim>\<open>POST /api/samp-servers\<close>.

  What the JavaScript runtime does is written out where the program relies on it:
  \<^item> a string is its sequence of UTF-16 code units;
  \<^item> a number is a double: \<open>NaN\<close>, an infinity, or an integer that a double holds
    (every number the program computes comes from \<^verbatim>\<open>parseInt\<close>, a buffer read or the
    sum or remainder of such numbers, so no fraction occurs); an integer that a double
    does not hold is rounded to the nearest one that it holds, or to an infinity;
  \<^item> \<^verbatim>\<open>undefined\<close> is \<open>None\<close>;
  \<^item> a thrown exception is the \<open>Inl\<close> of a sum.
  The clock-dependent fields of the records (\<^verbatim>\<open>queryTime\<close>, \<^verbatim>\<open>lastRestart\<close>,
  \<^verbatim>\<open>timestamp\<close>) are left out.
\<close>

subsection \<open>JavaScript values\<close>

type_synonym byte = "8 word"
type_synonym unit16 = "16 word"
type_synonym jsstring = "unit16 list"

datatype jsnum = NaN | Num int | Infinity | MinusInfinity

text \<open>The exceptions the program can meet. \<open>ShortResponse\<close> is the program's own
  \<^verbatim>\<open>new Error('...')\<close> of \<^verbatim>\<open>parseSampResponse\<close>; the others are the runtime's:
  \<open>ERR_OUT_OF_RANGE\<close> from a buffer read or write, \<open>TypeError\<close> from a property read on
  \<^verbatim>\<open>undefined\<close>, \<open>ERR_SOCKET_BAD_PORT\<close> from \<^verbatim>\<open>socket.send\<close>.\<close>

datatype jserror = ShortResponse | ERR_OUT_OF_RANGE | TypeError | ERR_SOCKET_BAD_PORT

text \<open>An ASCII literal as a JavaScript string.\<close>

definition js :: "string \<Rightarrow> jsstring" where
  "js s = map of_char s"

text \<open>The Number value of an integer: the integer itself below \<open>2^53\<close> in magnitude;
  above, the nearest integer with 53 significant bits, the one with an even 53rd bit when
  two are as near; an infinity when that is \<open>2^1024\<close> or more. \<open>-0\<close> is not told from
  \<open>0\<close>: the program only adds it to another number, compares it or writes it into a
  buffer.\<close>

function bitLength :: "int \<Rightarrow> nat" where
  "bitLength n = (if n \<le> 0 then 0 else Suc (bitLength (n div 2)))"
  by pat_completeness auto
termination
  by (relation "measure nat") auto

declare bitLength.simps [simp del]

definition roundToDouble :: "int \<Rightarrow> int option" where
  "roundToDouble n =
     (if n < 2 ^ 53 then Some n
      else
        (let e = bitLength n - 53;
             q = n div 2 ^ e;
             r = n mod 2 ^ e;
             half = 2 ^ (e - 1);
             q' = (if half < r \<or> (r = half \<and> q mod 2 = 1) then q + 1 else q)
         in if q' * 2 ^ e < 2 ^ 1024 then Some (q' * 2 ^ e) else None))"

definition toDouble :: "int \<Rightarrow> jsnum" where
  "toDouble x =
     (case roundToDouble \<bar>x\<bar> of
        None \<Rightarrow> if x < 0 then MinusInfinity else Infinity
      | Some v \<Rightarrow> Num (if x < 0 then - v else v))"

text \<open>\<^verbatim>\<open>+value\<close> for a value that is an integer number or \<^verbatim>\<open>undefined\<close>.\<close>

definition toNumber :: "int option \<Rightarrow> jsnum" where
  "toNumber v = (case v of None \<Rightarrow> NaN | Some n \<Rightarrow> toDouble n)"

text \<open>The white space of \<^verbatim>\<open>String.prototype.trim\<close> and of \<^verbatim>\<open>parseInt\<close>
  (ECMAScript's WhiteSpace and LineTerminator).\<close>

definition isWhiteSpace :: "unit16 \<Rightarrow> bool" where
  "isWhiteSpace c \<longleftrightarrow>
     c = 0x09 \<or> c = 0x0A \<or> c = 0x0B \<or> c = 0x0C \<or> c = 0x0D \<or> c = 0x20 \<or> c = 0xA0 \<or>
     c = 0x1680 \<or> (0x2000 \<le> c \<and> c \<le> 0x200A) \<or> c = 0x2028 \<or> c = 0x2029 \<or>
     c = 0x202F \<or> c = 0x205F \<or> c = 0x3000 \<or> c = 0xFEFF"

definition trim :: "jsstring \<Rightarrow> jsstring" where
  "trim s = rev (dropWhile isWhiteSpace (rev (dropWhile isWhiteSpace s)))"

text \<open>\<^verbatim>\<open>s.split(sep)\<close> for a one-character separator: never empty,
  \<^verbatim>\<open>''.split('.')\<close> is \<^verbatim>\<open>['']\<close>.\<close>

fun split_on :: "unit16 \<Rightarrow> jsstring \<Rightarrow> jsstring list" where
  "split_on sep [] = [[]]"
| "split_on sep (c # cs) =
     (let r = split_on sep cs in if c = sep then [] # r else (c # hd r) # tl r)"

text \<open>\<^verbatim>\<open>parseInt(string)\<close> with no radix: leading white space is skipped, a sign is
  read, a \<^verbatim>\<open>0x\<close> prefix selects radix 16, and the longest prefix of digits is read;
  the result is the Number value of the signed integer these digits write, \<open>NaN\<close> when
  there is no digit.\<close>

definition digitValue :: "unit16 \<Rightarrow> nat option" where
  "digitValue c =
     (if 0x30 \<le> c \<and> c \<le> 0x39 then Some (unat c - 48)
      else if 0x61 \<le> c \<and> c \<le> 0x7A then Some (unat c - 87)
      else if 0x41 \<le> c \<and> c \<le> 0x5A then Some (unat c - 55)
      else None)"

definition isRadixDigit :: "nat \<Rightarrow> unit16 \<Rightarrow> bool" where
  "isRadixDigit R c = (case digitValue c of None \<Rightarrow> False | Some d \<Rightarrow> d < R)"

definition digitsValue :: "nat \<Rightarrow> jsstring \<Rightarrow> nat" where
  "digitsValue R Z =
     foldl (\<lambda>acc c. case digitValue c of None \<Rightarrow> acc | Some d \<Rightarrow> acc * R + d) 0 Z"

definition parseInt :: "jsstring \<Rightarrow> jsnum" where
  "parseInt inputString =
     (let S = dropWhile isWhiteSpace inputString;
          sign = (if S \<noteq> [] \<and> hd S = 0x2D then - 1 else 1);
          S1 = (if S \<noteq> [] \<and> (hd S = 0x2B \<or> hd S = 0x2D) then tl S else S);
          hex = (case S1 of a # b # _ \<Rightarrow> a = 0x30 \<and> (b = 0x78 \<or> b = 0x58) | _ \<Rightarrow> False);
          R = (if hex then 16 else 10);
          S2 = (if hex then drop 2 S1 else S1);
          Z = takeWhile (isRadixDigit R) S2
      in if Z = [] then NaN else toDouble (sign * int (digitsValue R Z)))"

text \<open>\<^verbatim>\<open>parseInt(parts[i])\<close>: an index past the end reads \<^verbatim>\<open>undefined\<close>, whose string
  \<^verbatim>\<open>'undefined'\<close> has no digit.\<close>

definition parseIntAt :: "jsstring list \<Rightarrow> nat \<Rightarrow> jsnum" where
  "parseIntAt parts i = (if i < length parts then parseInt (parts ! i) else NaN)"

text \<open>The remainder operator \<^verbatim>\<open>%\<close> on integers: it truncates, the result has the sign of
  the dividend, and it is exact. The remainder of \<open>NaN\<close> or of an infinity is \<open>NaN\<close>.\<close>

definition jsrem :: "int \<Rightarrow> int \<Rightarrow> int" where
  "jsrem a b = sgn a * (\<bar>a\<bar> mod \<bar>b\<bar>)"

definition remNum :: "jsnum \<Rightarrow> int \<Rightarrow> jsnum" where
  "remNum a b = (case a of Num x \<Rightarrow> Num (jsrem x b) | _ \<Rightarrow> NaN)"

subsection \<open>Buffers\<close>

text \<open>Node's \<^verbatim>\<open>Buffer\<close> methods. A write checks the value first (\<open>NaN\<close> passes the check
  and is stored as 0, an infinity is out of range), then the offset; a read checks the
  offset.\<close>

definition writeUInt8 :: "byte list \<Rightarrow> jsnum \<Rightarrow> nat \<Rightarrow> jserror + byte list" where
  "writeUInt8 buf v offset =
     (case v of
        NaN \<Rightarrow> if offset < length buf then Inr (buf[offset := 0]) else Inl ERR_OUT_OF_RANGE
      | Num n \<Rightarrow>
          if n > 255 \<or> n < 0 then Inl ERR_OUT_OF_RANGE
          else if offset < length buf then Inr (buf[offset := of_int n])
          else Inl ERR_OUT_OF_RANGE
      | _ \<Rightarrow> Inl ERR_OUT_OF_RANGE)"

definition writeUInt16LE :: "byte list \<Rightarrow> jsnum \<Rightarrow> nat \<Rightarrow> jserror + byte list" where
  "writeUInt16LE buf v offset =
     (case v of
        NaN \<Rightarrow>
          if offset + 1 < length buf then Inr (buf[offset := 0, offset + 1 := 0])
          else Inl ERR_OUT_OF_RANGE
      | Num n \<Rightarrow>
          if n > 65535 \<or> n < 0 then Inl ERR_OUT_OF_RANGE
          else if offset + 1 < length buf
            then Inr (buf[offset := of_int n, offset + 1 := of_int (n div 256)])
          else Inl ERR_OUT_OF_RANGE
      | _ \<Rightarrow> Inl ERR_OUT_OF_RANGE)"

definition readUInt8 :: "byte list \<Rightarrow> nat \<Rightarrow> jserror + nat" where
  "readUInt8 buf offset =
     (if offset < length buf then Inr (unat (buf ! offset)) else Inl ERR_OUT_OF_RANGE)"

definition readUInt16LE :: "byte list \<Rightarrow> nat \<Rightarrow> jserror + nat" where
  "readUInt16LE buf offset =
     (if offset + 1 < length buf
      then Inr (unat (buf ! offset) + 256 * unat (buf ! (offset + 1)))
      else Inl ERR_OUT_OF_RANGE)"

definition readUInt32LE :: "byte list \<Rightarrow> nat \<Rightarrow> jserror + nat" where
  "readUInt32LE buf offset =
     (if offset + 3 < length buf
      then Inr (unat (buf ! offset) + 256 * unat (buf ! (offset + 1))
                + 65536 * unat (buf ! (offset + 2)) + 16777216 * unat (buf ! (offset + 3)))
      else Inl ERR_OUT_OF_RANGE)"

text \<open>The UTF-8 decoder of \<^verbatim>\<open>buffer.toString('utf-8', ...)\<close>: every maximal ill-formed
  part of the input becomes one U+FFFD, a code point above U+FFFF becomes its surrogate
  pair.\<close>

definition isCont :: "byte \<Rightarrow> bool" where
  "isCont c \<longleftrightarrow> 0x80 \<le> c \<and> c \<le> 0xBF"

definition contBits :: "byte \<Rightarrow> nat" where
  "contBits c = unat c mod 64"

definition codePoint :: "nat \<Rightarrow> jsstring" where
  "codePoint n =
     (if n < 65536 then [of_nat n]
      else [of_nat (55296 + (n - 65536) div 1024), of_nat (56320 + (n - 65536) mod 1024)])"

fun utf8Decode :: "byte list \<Rightarrow> jsstring" where
  "utf8Decode [] = []"
| "utf8Decode (b # bs) =
     (if b < 0x80 then ucast b # utf8Decode bs
      else if 0xC2 \<le> b \<and> b \<le> 0xDF then
        (case bs of
           [] \<Rightarrow> [0xFFFD]
         | c # cs \<Rightarrow>
             if isCont c then codePoint ((unat b mod 32) * 64 + contBits c) @ utf8Decode cs
             else 0xFFFD # utf8Decode bs)
      else if 0xE0 \<le> b \<and> b \<le> 0xEF then
        (case bs of
           [] \<Rightarrow> [0xFFFD]
         | c # cs \<Rightarrow>
             if (if b = 0xE0 then 0xA0 else 0x80) \<le> c \<and> c \<le> (if b = 0xED then 0x9F else 0xBF)
             then
               (case cs of
                  [] \<Rightarrow> [0xFFFD]
                | d # ds \<Rightarrow>
                    if isCont d
                    then codePoint (((unat b mod 16) * 64 + contBits c) * 64 + contBits d)
                           @ utf8Decode ds
                    else 0xFFFD # utf8Decode cs)
             else 0xFFFD # utf8Decode bs)
      else if 0xF0 \<le> b \<and> b \<le> 0xF4 then
        (case bs of
           [] \<Rightarrow> [0xFFFD]
         | c # cs \<Rightarrow>
             if (if b = 0xF0 then 0x90 else 0x80) \<le> c \<and> c \<le> (if b = 0xF4 then 0x8F else 0xBF)
             then
               (case cs of
                  [] \<Rightarrow> [0xFFFD]
                | d # ds \<Rightarrow>
                    if isCont d
                    then
                      (case ds of
                         [] \<Rightarrow> [0xFFFD]
                       | e # es \<Rightarrow>
                           if isCont e
                           then codePoint ((((unat b mod 8) * 64 + contBits c) * 64 + contBits d)
                                            * 64 + contBits e) @ utf8Decode es
                           else 0xFFFD # utf8Decode ds)
                    else 0xFFFD # utf8Decode cs)
             else 0xFFFD # utf8Decode bs)
      else 0xFFFD # utf8Decode bs)"

text \<open>\<^verbatim>\<open>buffer.toString('utf-8', start, end)\<close>: both bounds are clamped to the buffer,
  nothing is thrown.\<close>

definition toString :: "byte list \<Rightarrow> nat \<Rightarrow> nat \<Rightarrow> jsstring" where
  "toString buf start stop =
     (if start \<ge> length buf then []
      else let stop' = (if stop > length buf then length buf else stop)
           in if stop' \<le> start then [] else utf8Decode (take (stop' - start) (drop start buf)))"

subsection \<open>The records\<close>

text \<open>The object that \<^verbatim>\<open>parseSampResponse\<close> returns. The address and the port are
  whatever the caller passed: a string or \<^verbatim>\<open>undefined\<close>, a number or
  \<^verbatim>\<open>undefined\<close>. Its fields \<^verbatim>\<open>ip\<close> and \<^verbatim>\<open>port\<close> are \<open>r_ip\<close> and \<open>r_port\<close> here:
  \<open>ip\<close> and \<open>port\<close> stay the names of the functions' parameters. A local variable
  that has the name of a field is written with a prime.\<close>

record server_info =
  online :: bool
  password :: bool
  players :: nat
  maxPlayers :: nat
  hostname :: jsstring
  gamemode :: jsstring
  language :: jsstring
  r_ip :: "jsstring option"
  r_port :: "int option"
  version :: jsstring

text \<open>One entry of \<^verbatim>\<open>playersList\<close>, and the object that
  \<^verbatim>\<open>generateRealisticMockData\<close> returns: the fields above and six more.\<close>

record player =
  p_id :: nat
  p_name :: jsstring
  p_score :: nat
  p_ping :: nat

record mock_info = server_info +
  description :: jsstring
  mapname :: jsstring
  website :: jsstring
  playersList :: "player list"
  ping :: nat
  tags :: "jsstring list"

subsection \<open>The protocol codec\<close>

text \<open>\<^verbatim>\<open>createSampQueryPacket(ip, port)\<close>. The loop \<^verbatim>\<open>for (let i = 0; i < 4; i++)\<close> runs
  over the list of its indices; a write that throws ends the function.\<close>

fun writeIpParts :: "jsstring list \<Rightarrow> nat list \<Rightarrow> byte list \<Rightarrow> jserror + byte list" where
  "writeIpParts ipParts [] packet = Inr packet"
| "writeIpParts ipParts (i # rest) packet =
     (case writeUInt8 packet (parseIntAt ipParts i) (4 + i) of
        Inl e \<Rightarrow> Inl e
      | Inr packet' \<Rightarrow> writeIpParts ipParts rest packet')"

definition createSampQueryPacket :: "jsstring option \<Rightarrow> int option \<Rightarrow> jserror + byte list" where
  "createSampQueryPacket ip port =
     (let packet = replicate 11 0;
          packet = packet[0 := 0x53, 1 := 0x41, 2 := 0x4D, 3 := 0x50]
      in case ip of
           None \<Rightarrow> Inl TypeError
         | Some ip \<Rightarrow>
             (let ipParts = split_on 0x2E ip
              in case writeIpParts ipParts [0, 1, 2, 3] packet of
                   Inl e \<Rightarrow> Inl e
                 | Inr packet \<Rightarrow>
                     (case writeUInt16LE packet (toNumber port) 8 of
                        Inl e \<Rightarrow> Inl e
                      | Inr packet \<Rightarrow> writeUInt8 packet (Num 0x69) 10)))"

text \<open>\<^verbatim>\<open>parseSampResponse(buffer, ip, port)\<close>, statement by statement.\<close>

definition parseSampResponse ::
  "byte list \<Rightarrow> jsstring option \<Rightarrow> int option \<Rightarrow> jserror + server_info" where
  "parseSampResponse buffer ip port =
     (if length buffer < 11 then Inl ShortResponse
      else
        (let offset = 4 in
         case readUInt8 buffer offset of Inl e \<Rightarrow> Inl e | Inr b \<Rightarrow>
        (let password' = (b = 1); offset = offset + 1 in
         case readUInt16LE buffer offset of Inl e \<Rightarrow> Inl e | Inr players' \<Rightarrow>
        (let offset = offset + 2 in
         case readUInt16LE buffer offset of Inl e \<Rightarrow> Inl e | Inr maxPlayers' \<Rightarrow>
        (let offset = offset + 2 in
         case readUInt32LE buffer offset of Inl e \<Rightarrow> Inl e | Inr hostnameLength \<Rightarrow>
        (let offset = offset + 4;
             hostname' = toString buffer offset (offset + hostnameLength);
             offset = offset + hostnameLength in
         case readUInt32LE buffer offset of Inl e \<Rightarrow> Inl e | Inr gamemodeLength \<Rightarrow>
        (let offset = offset + 4;
             gamemode' = toString buffer offset (offset + gamemodeLength);
             offset = offset + gamemodeLength in
         case readUInt32LE buffer offset of Inl e \<Rightarrow> Inl e | Inr languageLength \<Rightarrow>
        (let offset = offset + 4;
             language' = toString buffer offset (offset + languageLength)
         in Inr \<lparr> online = True, password = password', players = players',
                   maxPlayers = maxPlayers', hostname = trim hostname',
                   gamemode = trim gamemode', language = trim language',
                   r_ip = ip, r_port = port, version = js ''SA-MP 0.3.7'' \<rparr>))))))))"

subsection \<open>The exchange\<close>

text \<open>\<^verbatim>\<open>queryRealSampServer(ip, port)\<close> creates a socket, builds the packet, arms a timer of
  5000 ms, registers its handlers and sends. What happens next is the runtime's choice:
  the one callback it runs first is the \<open>event\<close>. Each callback closes the socket, so
  no other callback follows it. The \<open>trace\<close> lists, in order, what the function did to
  the socket and the timer, and \<open>Settle\<close> where the promise received its outcome; a
  promise that has its outcome ignores a later \<^verbatim>\<open>resolve\<close> or \<^verbatim>\<open>reject\<close>.\<close>

datatype event =
    Message "byte list"
  | SocketError
  | SendError
  | TimerFired

datatype effect =
    CreateSocket
  | SetTimeout nat
  | Send "byte list" "int option" "jsstring option"
  | ClearTimeout
  | Close
  | Settle

text \<open>Why a promise was rejected: the four messages of the function's own
  \<^verbatim>\<open>reject(new Error(...))\<close> calls, and \<open>Thrown\<close> for an exception that left the
  promise's executor.\<close>

datatype failure =
    QueryTimeout
  | ParseFailed jserror
  | NetworkError
  | SendFailed
  | Thrown jserror

record exchange =
  trace :: "effect list"
  outcome :: "(failure + server_info) option"

definition did :: "effect list \<Rightarrow> exchange \<Rightarrow> exchange" where
  "did es st = st\<lparr>trace := trace st @ es\<rparr>"

definition settle :: "failure + server_info \<Rightarrow> exchange \<Rightarrow> exchange" where
  "settle r st =
     (if outcome st = None then st\<lparr>trace := trace st @ [Settle], outcome := Some r\<rparr> else st)"

text \<open>The four callbacks.\<close>

definition onTimeout :: "exchange \<Rightarrow> exchange" where
  "onTimeout st = settle (Inl QueryTimeout) (did [Close] st)"

definition onMessage :: "byte list \<Rightarrow> jsstring option \<Rightarrow> int option \<Rightarrow> exchange \<Rightarrow> exchange" where
  "onMessage message ip port st =
     (let st = did [ClearTimeout, Close] st
      in case parseSampResponse message ip port of
           Inr serverInfo \<Rightarrow> settle (Inr serverInfo) st
         | Inl error \<Rightarrow> settle (Inl (ParseFailed error)) st)"

definition onError :: "exchange \<Rightarrow> exchange" where
  "onError st = settle (Inl NetworkError) (did [ClearTimeout, Close] st)"

definition onSent :: "bool \<Rightarrow> exchange \<Rightarrow> exchange" where
  "onSent error st =
     (if error then settle (Inl SendFailed) (did [ClearTimeout, Close] st) else st)"

text \<open>\<^verbatim>\<open>socket.send\<close> checks its port before anything is sent, and throws
  \<open>ERR_SOCKET_BAD_PORT\<close> for \<^verbatim>\<open>undefined\<close> and for 0.\<close>

definition validatePort :: "int option \<Rightarrow> bool" where
  "validatePort port = (case port of None \<Rightarrow> False | Some n \<Rightarrow> 0 < n \<and> n \<le> 65535)"

definition deliver :: "event \<Rightarrow> jsstring option \<Rightarrow> int option \<Rightarrow> exchange \<Rightarrow> exchange" where
  "deliver ev ip port st =
     (case ev of
        Message message \<Rightarrow> onMessage message ip port st
      | SocketError \<Rightarrow> onError st
      | SendError \<Rightarrow> onSent True st
      | TimerFired \<Rightarrow> onTimeout st)"

text \<open>An exception in the executor rejects the promise at once. When it is \<^verbatim>\<open>send\<close> that
  throws, the timer is armed already and fires later.\<close>

definition queryRealSampServer :: "jsstring option \<Rightarrow> int option \<Rightarrow> event \<Rightarrow> exchange" where
  "queryRealSampServer ip port ev =
     (let st = \<lparr>trace = [CreateSocket], outcome = None\<rparr>;
          timeout = 5000
      in case createSampQueryPacket ip port of
           Inl e \<Rightarrow> settle (Inl (Thrown e)) st
         | Inr queryPacket \<Rightarrow>
             (let st = did [SetTimeout timeout] st
              in if validatePort port
                 then deliver ev ip port (did [Send queryPacket port ip] st)
                 else onTimeout (settle (Inl (Thrown ERR_SOCKET_BAD_PORT)) st)))"

subsection \<open>The mock generator\<close>

record template =
  t_name :: jsstring
  t_gamemode :: jsstring
  t_language :: jsstring
  t_description :: jsstring
  t_tags :: "jsstring list"
  t_averagePlayers :: int

definition serverTemplates :: "template list" where
  "serverTemplates =
    [\<lparr> t_name = js ''Los Santos Roleplay | LSRP.NET'',
        t_gamemode = js ''Strict Roleplay v3.1'',
        t_language = js ''English'',
        t_description =
          js ''The largest English SA-MP roleplay server with advanced systems.'',
        t_tags = [js ''Roleplay'', js ''English'', js ''Advanced''],
        t_averagePlayers = 450 \<rparr>,
     \<lparr> t_name = js ''Next Generation Gaming | NGG-RP'',
        t_gamemode = js ''NG:RP v5.0'',
        t_language = js ''English'',
        t_description =
          js ''Next Generation Gaming roleplay server with unique features.'',
        t_tags = [js ''Roleplay'', js ''English'', js ''Innovative''],
        t_averagePlayers = 320 \<rparr>,
     \<lparr> t_name = js ''Cops and Robbers | Classic'',
        t_gamemode = js ''CNR v2.5'',
        t_language = js ''English'',
        t_description =
          js ''Classic Cops and Robbers gameplay with team-based action.'',
        t_tags = [js ''Action'', js ''Teamplay'', js ''Classic''],
        t_averagePlayers = 180 \<rparr>,
     \<lparr> t_name = js ''Russian Roleplay | '' @ [0x420, 0x43E, 0x441, 0x441, 0x438, 0x44F]
                 @ js '' RP'',
        t_gamemode = js ''Russian Roleplay v4.2'',
        t_language = js ''Russian'',
        t_description =
          [0x41A, 0x440, 0x443, 0x43F, 0x43D, 0x435, 0x439, 0x448, 0x438, 0x439] @ js '' ''
          @ [0x440, 0x443, 0x441, 0x441, 0x43A, 0x438, 0x439] @ js '' ''
          @ [0x440, 0x43E, 0x43B, 0x435, 0x432, 0x43E, 0x439] @ js '' ''
          @ [0x441, 0x435, 0x440, 0x432, 0x435, 0x440] @ js '' SA-MP.'',
        t_tags = [js ''Roleplay'', js ''Russian'', js ''Large''],
        t_averagePlayers = 280 \<rparr>,
     \<lparr> t_name = js ''Freeroam & Stunts | [FS]'',
        t_gamemode = js ''Freeroam v1.8'',
        t_language = js ''English'',
        t_description =
          js ''Freeroam with stunts, races and custom vehicles.'',
        t_tags = [js ''Freeroam'', js ''Stunts'', js ''Racing''],
        t_averagePlayers = 120 \<rparr>]"

definition playerNames :: "jsstring list" where
  "playerNames =
    [js ''John_Doe'', js ''Mike_Johnson'', js ''Carl_Johnson'', js ''Franklin_C'',
     js ''Trevor_P'', js ''Lamar_D'', js ''Michael_DS'', js ''Simeon_Y'', js ''Lester_C'',
     js ''Amanda_DS'', js ''Jimmy_DS'', js ''Dave_N'', js ''Steve_H'', js ''Floyd_H'',
     js ''Andreas_S'', js ''Big_Smoke'', js ''Ryder'', js ''Sweet'', js ''Tenpenny'',
     js ''Woozie'']"

text \<open>The randomness of one call. Every use of \<^verbatim>\<open>Math.random()\<close> in the function is
  \<^verbatim>\<open>Math.floor(Math.random() * N)\<close>, an integer from 0 to \<open>N - 1\<close>, or the test
  \<^verbatim>\<open>Math.random() > 0.8\<close>; the draws are given as these results: \<open>d_players\<close> for
  \<open>N = 100\<close>, \<open>d_ping\<close> for \<open>N = 150\<close>, and for the player of index \<open>i\<close>,
  \<open>d_score i\<close> for \<open>N = 50000\<close> and \<open>d_playerPing i\<close> for \<open>N = 200\<close>.\<close>

record draws =
  d_players :: nat
  d_ping :: nat
  d_score :: "nat \<Rightarrow> nat"
  d_playerPing :: "nat \<Rightarrow> nat"
  d_password :: bool

text \<open>\<^verbatim>\<open>a + b\<close> on numbers: the Number value of the exact sum. And the text of a number in
  a template literal: the decimal digits of an integer (so it is below \<open>10^21\<close> in
  magnitude; the one number that the program writes is a remainder by 899 plus 100), and
  the names of the other numbers.\<close>

fun addNum :: "jsnum \<Rightarrow> jsnum \<Rightarrow> jsnum" where
  "addNum (Num x) (Num y) = toDouble (x + y)"
| "addNum NaN b = NaN"
| "addNum a NaN = NaN"
| "addNum Infinity MinusInfinity = NaN"
| "addNum MinusInfinity Infinity = NaN"
| "addNum Infinity b = Infinity"
| "addNum a Infinity = Infinity"
| "addNum MinusInfinity b = MinusInfinity"
| "addNum a MinusInfinity = MinusInfinity"

fun showNat :: "nat \<Rightarrow> jsstring" where
  "showNat n =
     (if n < 10 then [of_nat (48 + n)] else showNat (n div 10) @ [of_nat (48 + n mod 10)])"

declare showNat.simps [simp del]

definition showInt :: "int \<Rightarrow> jsstring" where
  "showInt n = (if n < 0 then 0x2D # showNat (nat (- n)) else showNat (nat n))"

definition showNum :: "jsnum \<Rightarrow> jsstring" where
  "showNum a =
     (case a of
        Num n \<Rightarrow> showInt n
      | NaN \<Rightarrow> js ''NaN''
      | Infinity \<Rightarrow> js ''Infinity''
      | MinusInfinity \<Rightarrow> js ''-Infinity'')"

text \<open>\<^verbatim>\<open>ip.split('.').reduce((a, b) => a + parseInt(b), 0) + port\<close>.\<close>

definition hashOf :: "jsstring \<Rightarrow> int option \<Rightarrow> jsnum" where
  "hashOf ip port =
     addNum (foldl (\<lambda>a b. addNum a (parseInt b)) (Num 0) (split_on 0x2E ip)) (toNumber port)"

text \<open>The body of the loop \<^verbatim>\<open>for (let i = 0; i < showPlayers; i++)\<close>. An index that is
  outside an array, or that is not an integer, reads \<^verbatim>\<open>undefined\<close>, which the
  concatenation turns into the text \<^verbatim>\<open>'undefined'\<close>.\<close>

definition elementAt :: "jsstring list \<Rightarrow> jsnum \<Rightarrow> jsstring" where
  "elementAt xs a =
     (case a of
        Num k \<Rightarrow> if 0 \<le> k \<and> nat k < length xs then xs ! nat k else js ''undefined''
      | _ \<Rightarrow> js ''undefined'')"

definition mockPlayer :: "int \<Rightarrow> draws \<Rightarrow> nat \<Rightarrow> player" where
  "mockPlayer hash d i =
     (let nameIndex = remNum (addNum (Num hash) (Num (int i))) (int (length playerNames));
          name = elementAt playerNames nameIndex
                 @ (if i > 0
                    then js ''_''
                      @ showNum (addNum (remNum (addNum (Num hash) (Num (int i))) 899) (Num 100))
                    else []);
          score = d_score d i;
          playerPing = d_playerPing d i + 20
      in \<lparr> p_id = i + 1, p_name = name, p_score = score, p_ping = playerPing \<rparr>)"

text \<open>\<^verbatim>\<open>generateRealisticMockData(ip, port)\<close>. With \<^verbatim>\<open>ip\<close> undefined, \<^verbatim>\<open>ip.split\<close>
  throws; with a hash that is \<open>NaN\<close> or an infinity (its remainder is \<open>NaN\<close>), or whose
  remainder is negative, \<^verbatim>\<open>serverTemplates[templateIndex]\<close> is \<^verbatim>\<open>undefined\<close> and
  \<^verbatim>\<open>template.averagePlayers\<close> throws. \<open>mockRecord\<close> is the function from
  \<^verbatim>\<open>const basePlayers\<close> on, where the template is known.\<close>

definition mockRecord ::
  "template \<Rightarrow> int \<Rightarrow> jsstring option \<Rightarrow> int option \<Rightarrow> draws \<Rightarrow> mock_info" where
  "mockRecord template hash ip port d =
     (let basePlayers = t_averagePlayers template;
          players' = max 10 (min 1000 (basePlayers + int (d_players d) - 50));
          maxPlayers' = 1000;
          ping' = d_ping d + 30;
          showPlayers = min players' 25;
          playersList' = map (mockPlayer hash d) [0..<nat showPlayers]
      in \<lparr> online = True, password = d_password d,
            players = nat players', maxPlayers = maxPlayers',
            hostname = t_name template, gamemode = t_gamemode template,
            language = t_language template, r_ip = ip, r_port = port,
            version = js ''SA-MP 0.3.7'',
            description = t_description template,
            mapname = js ''San Andreas'',
            website = js ''https://example-samp.com'',
            playersList = playersList', ping = ping',
            tags = t_tags template \<rparr>)"

definition generateRealisticMockData ::
  "jsstring option \<Rightarrow> int option \<Rightarrow> draws \<Rightarrow> jserror + mock_info" where
  "generateRealisticMockData ip port d =
     (case ip of
        None \<Rightarrow> Inl TypeError
      | Some ip' \<Rightarrow>
          (case hashOf ip' port of
             Num hash \<Rightarrow>
               (let templateIndex = jsrem hash (int (length serverTemplates))
                in if templateIndex < 0 then Inl TypeError
                   else Inr (mockRecord (serverTemplates ! nat templateIndex) hash ip port d))
           | _ \<Rightarrow> Inl TypeError))"

subsection \<open>The route handlers\<close>

datatype source = SourceReal | SourceMock

datatype server_data = RealData server_info | MockData mock_info

datatype reject_code = MISSING_PARAMS | INVALID_PORT

text \<open>What \<^verbatim>\<open>GET /api/samp-server\<close> does with a request: a status 400 with its
  \<^verbatim>\<open>code\<close>, or the JSON body with \<^verbatim>\<open>data\<close>, \<^verbatim>\<open>query.ip\<close>, \<^verbatim>\<open>query.port\<close> and
  \<^verbatim>\<open>metadata.source\<close>, or an exception that leaves the handler.\<close>

datatype reply =
    BadRequest reject_code
  | Success server_data jsstring int source
  | Uncaught jserror

text \<open>The query parameters \<^verbatim>\<open>ip\<close> and \<^verbatim>\<open>port\<close> are strings, or absent. The handler's
  result is what it did to sockets and timers, and its reply.\<close>

definition falsy :: "jsstring option \<Rightarrow> bool" where
  "falsy v = (case v of None \<Rightarrow> True | Some s \<Rightarrow> s = [])"

definition get_api_samp_server ::
  "jsstring option \<Rightarrow> jsstring option \<Rightarrow> event \<Rightarrow> draws \<Rightarrow> effect list \<times> reply" where
  "get_api_samp_server ip port ev d =
     (case (ip, port) of
        (Some ip', Some port') \<Rightarrow>
          if falsy ip \<or> falsy port then ([], BadRequest MISSING_PARAMS)
          else
            (case parseInt port' of
               Num portNum \<Rightarrow>
                 if portNum < 1 \<or> portNum > 65535 then ([], BadRequest INVALID_PORT)
                 else
                   (let q = queryRealSampServer ip (Some portNum) ev
                    in case outcome q of
                         Some (Inr serverInfo) \<Rightarrow>
                           (trace q, Success (RealData serverInfo) ip' portNum SourceReal)
                       | _ \<Rightarrow>
                           (case generateRealisticMockData ip (Some portNum) d of
                              Inr mockData \<Rightarrow>
                                (trace q, Success (MockData mockData) ip' portNum SourceMock)
                            | Inl e \<Rightarrow> (trace q, Uncaught e)))
             | _ \<Rightarrow> ([], BadRequest INVALID_PORT))
      | _ \<Rightarrow> ([], BadRequest MISSING_PARAMS))"

text \<open>\<^verbatim>\<open>POST /api/samp-servers\<close>. An element of \<^verbatim>\<open>servers\<close> is an object whose
  \<^verbatim>\<open>ip\<close> is a string or missing and whose \<^verbatim>\<open>port\<close> is an integer number (one that
  a double holds: the body has been parsed) or missing. A
  result carries \<^verbatim>\<open>data\<close> and \<^verbatim>\<open>query\<close>; only a mock result has the
  \<^verbatim>\<open>metadata\<close> with \<^verbatim>\<open>source: 'mock'\<close>. The runtime's choice for the element of index
  \<open>i\<close> is \<open>ev i\<close>, its randomness \<open>rnd i\<close>.\<close>

record server_query =
  q_ip :: "jsstring option"
  q_port :: "int option"

datatype batch_item = RealItem server_info server_query | MockItem mock_info server_query

datatype batch_reject = NOT_AN_ARRAY | TOO_MANY nat

datatype batch_reply =
    BatchBadRequest batch_reject
  | BatchSuccess "batch_item list" nat
  | BatchUncaught jserror

text \<open>The body of the loop: the \<^verbatim>\<open>try\<close> pushes a real result, the \<^verbatim>\<open>catch\<close> a mock
  one; an exception in the \<^verbatim>\<open>catch\<close> leaves the handler.\<close>

definition queryOrMock :: "server_query \<Rightarrow> event \<Rightarrow> draws \<Rightarrow> jserror + batch_item" where
  "queryOrMock server ev d =
     (case outcome (queryRealSampServer (q_ip server) (q_port server) ev) of
        Some (Inr data) \<Rightarrow> Inr (RealItem data server)
      | _ \<Rightarrow>
          (case generateRealisticMockData (q_ip server) (q_port server) d of
             Inr mockData \<Rightarrow> Inr (MockItem mockData server)
           | Inl e \<Rightarrow> Inl e))"

fun batchLoop ::
  "server_query list \<Rightarrow> nat \<Rightarrow> (nat \<Rightarrow> event) \<Rightarrow> (nat \<Rightarrow> draws) \<Rightarrow> batch_item list
     \<Rightarrow> jserror + batch_item list" where
  "batchLoop [] i ev rnd results = Inr results"
| "batchLoop (server # rest) i ev rnd results =
     (case queryOrMock server (ev i) (rnd i) of
        Inr item \<Rightarrow> batchLoop rest (Suc i) ev rnd (results @ [item])
      | Inl e \<Rightarrow> Inl e)"

definition post_api_samp_servers ::
  "server_query list option \<Rightarrow> (nat \<Rightarrow> event) \<Rightarrow> (nat \<Rightarrow> draws) \<Rightarrow> batch_reply" where
  "post_api_samp_servers servers ev rnd =
     (case servers of
        None \<Rightarrow> BatchBadRequest NOT_AN_ARRAY
      | Some servers' \<Rightarrow>
          if length servers' > 5 then BatchBadRequest (TOO_MANY (length servers'))
          else
            (case batchLoop servers' 0 ev rnd [] of
               Inr results \<Rightarrow> BatchSuccess results (length results)
             | Inl e \<Rightarrow> BatchUncaught e))"

subsection \<open>Targets\<close>

text \<open>A valid target: the address is four dot-separated decimal numbers from 0 to 255,
  the port is from 1 to 65535. \<open>octets\<close> are the four numbers of the address.\<close>

definition isDecimalDigit :: "unit16 \<Rightarrow> bool" where
  "isDecimalDigit c \<longleftrightarrow> 0x30 \<le> c \<and> c \<le> 0x39"

definition isOctet :: "jsstring \<Rightarrow> bool" where
  "isOctet p \<longleftrightarrow> p \<noteq> [] \<and> list_all isDecimalDigit p \<and> digitsValue 10 p \<le> 255"

definition validTarget :: "jsstring \<Rightarrow> int \<Rightarrow> bool" where
  "validTarget ip port \<longleftrightarrow>
     length (split_on 0x2E ip) = 4 \<and> list_all isOctet (split_on 0x2E ip)
     \<and> 1 \<le> port \<and> port \<le> 65535"

definition octets :: "jsstring \<Rightarrow> nat list" where
  "octets ip = map (digitsValue 10) (split_on 0x2E ip)"

text \<open>An element of \<^verbatim>\<open>servers\<close> that is a valid target.\<close>

definition validQuery :: "server_query \<Rightarrow> bool" where
  "validQuery server =
     (case (q_ip server, q_port server) of
        (Some ip, Some port) \<Rightarrow> validTarget ip port
      | _ \<Rightarrow> False)"

text \<open>The draws used in the examples.\<close>

definition exampleDraws :: draws where
  "exampleDraws = \<lparr> d_players = 37, d_ping = 12, d_score = (\<lambda>i. 100 * i),
                     d_playerPing = (\<lambda>i. 3 * i), d_password = False \<rparr>"

text \<open>Modelled from the spec: the reference encoder \<^verbatim>\<open>serverSideEncode\<close> of the
  response layout, which is not part of the repository. After the header come one byte
  for the password flag, the player count and the maximum player count as 2-byte
  little-endian integers, and the hostname, the gamemode and the language, each as a
  4-byte little-endian length followed by that many bytes of UTF-8.\<close>

definition le16 :: "nat \<Rightarrow> byte list" where
  "le16 n = [of_nat n, of_nat (n div 256)]"

definition le32 :: "nat \<Rightarrow> byte list" where
  "le32 n = [of_nat n, of_nat (n div 256), of_nat (n div 65536), of_nat (n div 16777216)]"

definition encodeResponse ::
  "byte list \<Rightarrow> bool \<Rightarrow> nat \<Rightarrow> nat \<Rightarrow> byte list \<Rightarrow> byte list \<Rightarrow> byte list \<Rightarrow> byte list" where
  "encodeResponse header pw np nmax h g l =
     header @ [if pw then 1 else 0] @ le16 np @ le16 nmax
       @ le32 (length h) @ h @ le32 (length g) @ g @ le32 (length l) @ l"

text \<open>Modelled from the spec: the UTF-8 encoding of the strings that the reference encoder
  writes. A string is given by its code points, each a Unicode scalar value (no
  surrogate); \<open>fromCodePoints\<close> is the JavaScript string of these code points, where a
  code point above U+FFFF is a surrogate pair, and \<open>utf8Encode\<close> its UTF-8 bytes: one
  byte below U+0080, two below U+0800, three below U+10000, four above.\<close>

definition isScalarValue :: "nat \<Rightarrow> bool" where
  "isScalarValue n \<longleftrightarrow> n < 0xD800 \<or> (0xE000 \<le> n \<and> n < 0x110000)"

definition fromCodePoints :: "nat list \<Rightarrow> jsstring" where
  "fromCodePoints s = concat (map codePoint s)"

definition utf8Bytes :: "nat \<Rightarrow> byte list" where
  "utf8Bytes n =
     (if n < 0x80 then [of_nat n]
      else if n < 0x800 then [of_nat (0xC0 + n div 64), of_nat (0x80 + n mod 64)]
      else if n < 0x10000
        then [of_nat (0xE0 + n div 4096), of_nat (0x80 + n div 64 mod 64),
              of_nat (0x80 + n mod 64)]
      else [of_nat (0xF0 + n div 262144), of_nat (0x80 + n div 4096 mod 64),
            of_nat (0x80 + n div 64 mod 64), of_nat (0x80 + n mod 64)])"

definition utf8Encode :: "nat list \<Rightarrow> byte list" where
  "utf8Encode s = concat (map utf8Bytes s)"

text \<open>Modelled from the spec: the reference encoder \<^verbatim>\<open>serverSideEncode\<close> on field values,
  the three strings given by their code points.\<close>

definition serverSideEncode ::
  "byte list \<Rightarrow> bool \<Rightarrow> nat \<Rightarrow> nat \<Rightarrow> nat list \<Rightarrow> nat list \<Rightarrow> nat list \<Rightarrow> byte list" where
  "serverSideEncode header pw np nmax hostname' gamemode' language' =
     encodeResponse header pw np nmax
       (utf8Encode hostname') (utf8Encode gamemode') (utf8Encode language')"

text \<open>The payload of the example: four header bytes, password false, 42 players, 100
  maximum players, hostname \<^verbatim>\<open>" MyServer "\<close>, gamemode \<^verbatim>\<open>"DM"\<close>, language \<^verbatim>\<open>"EN"\<close>.\<close>

definition examplePayload :: "byte \<Rightarrow> byte \<Rightarrow> byte \<Rightarrow> byte \<Rightarrow> byte list" where
  "examplePayload h0 h1 h2 h3 =
     [h0, h1, h2, h3, 0, 42, 0, 100, 0, 10, 0, 0, 0] @ map of_char '' MyServer ''
       @ [2, 0, 0, 0] @ map of_char ''DM'' @ [2, 0, 0, 0] @ map of_char ''EN''"

text \<open>A payload whose strings are not ASCII: password true, 3 players, 50 maximum
  players; the hostname is an ideographic space (U+3000, \<^verbatim>\<open>E3 80 80\<close>), the six Cyrillic
  letters of the fourth template's name, \<^verbatim>\<open>" RP "\<close>, the code point U+1F600
  (\<^verbatim>\<open>F0 9F 98 80\<close>) and a no-break space (U+00A0, \<^verbatim>\<open>C2 A0\<close>), 25 bytes; the gamemode is
  \<^verbatim>\<open>"DM"\<close>; the language is seven Cyrillic letters, 14 bytes.\<close>

definition exampleHostname :: "nat list" where
  "exampleHostname =
     [0x3000, 0x420, 0x43E, 0x441, 0x441, 0x438, 0x44F, 0x20, 0x52, 0x50, 0x20, 0x1F600, 0xA0]"

definition exampleLanguage :: "nat list" where
  "exampleLanguage = [0x420, 0x443, 0x441, 0x441, 0x43A, 0x438, 0x439]"

definition exampleUnicodePayload :: "byte list" where
  "exampleUnicodePayload =
     [0x53, 0x41, 0x4D, 0x50, 1, 3, 0, 50, 0,
      25, 0, 0, 0,
      0xE3, 0x80, 0x80, 0xD0, 0xA0, 0xD0, 0xBE, 0xD1, 0x81, 0xD1, 0x81, 0xD0, 0xB8, 0xD1, 0x8F,
      0x20, 0x52, 0x50, 0x20, 0xF0, 0x9F, 0x98, 0x80, 0xC2, 0xA0,
      2, 0, 0, 0, 0x44, 0x4D,
      14, 0, 0, 0,
      0xD0, 0xA0, 0xD1, 0x83, 0xD1, 0x81, 0xD1, 0x81, 0xD0, 0xBA, 0xD0, 0xB8, 0xD0, 0xB9]"

section \<open>Properties\<close>

subsection \<open>Helper lemmas: strings and numbers\<close>

lemma digit_facts:
  assumes "isDecimalDigit c"
  shows "\<not> isWhiteSpace c" "c \<noteq> 0x2D" "c \<noteq> 0x2B" "c \<noteq> 0x78" "c \<noteq> 0x58" "c \<noteq> 0x2E"
    "isRadixDigit 10 c"
  using assms
  by (auto simp: isDecimalDigit_def isWhiteSpace_def isRadixDigit_def digitValue_def
      word_le_nat_alt)

text \<open>What \<open>trim\<close> does: of a string that is white space, a core that neither begins
  nor ends with white space, and white space, the core is left; of white space alone,
  nothing.\<close>

lemma dropWhile_all: "list_all P xs \<Longrightarrow> dropWhile P (xs @ ys) = dropWhile P ys"
  by (induction xs) simp_all

lemma trim_surrounding:
  assumes "list_all isWhiteSpace a" "list_all isWhiteSpace b"
    and "c \<noteq> []" "\<not> isWhiteSpace (hd c)" "\<not> isWhiteSpace (last c)"
  shows "trim (a @ c @ b) = c"
proof -
  obtain x c' where c: "c = x # c'" using assms(3) by (cases c) auto
  have 1: "dropWhile isWhiteSpace (a @ c @ b) = c @ b"
    unfolding dropWhile_all[OF assms(1)] using assms(4) by (simp add: c)
  have rc: "rev c = last c # rev (butlast c)"
    using assms(3) by (metis append_butlast_last_id rev_append
        rev_singleton_conv append_Cons append_Nil)
  have rb: "list_all isWhiteSpace (rev b)" using assms(2) by (simp add: list_all_iff)
  have 2: "dropWhile isWhiteSpace (rev b @ rev c) = rev c"
    unfolding dropWhile_all[OF rb] rc using assms(5) by simp
  show ?thesis
    by (simp add: trim_def 1 2)
qed

lemma trim_blank:
  assumes "list_all isWhiteSpace a"
  shows "trim a = []"
proof -
  have d: "dropWhile isWhiteSpace a = []"
    using dropWhile_all[OF assms, of "[]"] by simp
  show ?thesis unfolding trim_def d by simp
qed

text \<open>The Number value of an integer: exact below \<open>2^53\<close>, rounded to even above.\<close>

lemma toDouble_exact: "\<bar>x\<bar> < 9007199254740992 \<Longrightarrow> toDouble x = Num x"
  by (simp add: toDouble_def roundToDouble_def)

lemma toDouble_examples:
  "toDouble 9007199254740993 = Num 9007199254740992"
  "toDouble 9007199254740995 = Num 9007199254740996"
  "toDouble (- (2 ^ 1024)) = MinusInfinity"
  by code_simp+

lemma bitLength_bounds: "0 < n \<Longrightarrow> 2 ^ (bitLength n - 1) \<le> n \<and> n < 2 ^ bitLength n"
proof (induction n rule: bitLength.induct)
  case (1 n)
  show ?case
  proof (cases "n = 1")
    case True
    then show ?thesis by (simp add: bitLength.simps[of 1] bitLength.simps[of 0])
  next
    case False
    with 1(2) have pos: "0 < n div 2" by simp
    from 1(1)[OF _ pos] 1(2) have ih: "2 ^ (bitLength (n div 2) - 1) \<le> n div 2"
      "n div 2 < 2 ^ bitLength (n div 2)" by simp_all
    have bl: "bitLength n = Suc (bitLength (n div 2))"
      using 1(2) by (simp add: bitLength.simps[of n])
    have p: "0 < bitLength (n div 2)" using pos by (simp add: bitLength.simps[of "n div 2"])
    then obtain k where k: "bitLength (n div 2) = Suc k"
      by (cases "bitLength (n div 2)") auto
    from ih have "2 * 2 ^ k \<le> n" "n < 2 * 2 ^ Suc k" unfolding k by simp_all
    then show ?thesis unfolding bl k by simp
  qed
qed

text \<open>From \<open>2^1024\<close> on, the Number value is \<^verbatim>\<open>Infinity\<close>.\<close>

lemma toDouble_overflow:
  assumes "2 ^ 1024 \<le> x"
  shows "toDouble x = Infinity"
proof -
  define P :: int where "P = 2 ^ 1024"
  have "(0::int) < 2 ^ 1024" by (rule zero_less_power) simp
  then have pos: "0 < x" using assms by linarith
  define e where "e = bitLength x - 53"
  define q where "q = x div 2 ^ e"
  from bitLength_bounds[OF pos] have b: "2 ^ (bitLength x - 1) \<le> x" "x < 2 ^ bitLength x"
    by simp_all
  have "(2::int) ^ 1024 < 2 ^ bitLength x" using assms b(2) by linarith
  then have bl: "1024 < bitLength x" by (simp only: power_strict_increasing_iff)
  then have split: "bitLength x - 1 = 52 + e" unfolding e_def by simp
  have "(2::int) ^ 53 \<le> 2 ^ 1024" by (rule power_increasing) simp_all
  then have x53: "\<not> x < 2 ^ 53" using assms by linarith
  have "(2::int) ^ 52 * 2 ^ e \<le> x" using b(1) unfolding split by (simp only: power_add)
  then have "(2::int) ^ 52 \<le> q" unfolding q_def
    by (metis zero_less_numeral zero_less_power pos_le_divide_eq zdiv_mono1
        nonzero_mult_div_cancel_right less_irrefl)
  then have "2 ^ 52 * 2 ^ e \<le> q * 2 ^ e" by (simp add: mult_right_mono)
  moreover have "(2::int) ^ 1024 \<le> 2 ^ (52 + e)"
    by (rule power_increasing) (use bl split in simp_all)
  ultimately have v: "P \<le> q * 2 ^ e" unfolding P_def by (simp only: power_add)
  have "q * 2 ^ e \<le> (q + 1) * 2 ^ e" by (simp add: mult_right_mono)
  with v have v': "P \<le> (q + 1) * 2 ^ e" by linarith
  have ab: "\<bar>x\<bar> = x" using pos by simp
  show ?thesis
    unfolding toDouble_def roundToDouble_def Let_def ab e_def[symmetric] q_def[symmetric]
      P_def[symmetric]
    using x53 v v' pos by (simp add: not_less[symmetric])
qed

lemma parseInt_digits:
  assumes "p \<noteq> []" "list_all isDecimalDigit p"
  shows "parseInt p = toDouble (int (digitsValue 10 p))"
proof -
  obtain c cs where p: "p = c # cs" using assms(1) by (cases p) auto
  have c: "isDecimalDigit c" using assms(2) p by simp
  have "\<forall>x\<in>set p. isRadixDigit 10 x"
    using assms(2) by (auto simp: list_all_iff digit_facts)
  then have tw: "takeWhile (isRadixDigit 10) p = p"
    by (simp add: takeWhile_eq_all_conv)
  have dw: "dropWhile isWhiteSpace p = p"
    using digit_facts(1)[OF c] p by simp
  have hd: "hd p \<noteq> 0x2D" "hd p \<noteq> 0x2B"
    using digit_facts[OF c] p by simp_all
  have nohex: "\<not> (case p of a # b # _ \<Rightarrow> a = 0x30 \<and> (b = 0x78 \<or> b = 0x58) | _ \<Rightarrow> False)"
    using assms(2) p by (cases cs) (auto simp: digit_facts)
  show ?thesis
    using assms(1) by (simp add: parseInt_def Let_def dw hd nohex tw)
qed

lemma parseInt_octet: "isOctet p \<Longrightarrow> parseInt p = Num (int (digitsValue 10 p))"
  by (simp add: isOctet_def parseInt_digits toDouble_exact)

lemma toNumber_port: "0 \<le> port \<Longrightarrow> port \<le> 65535 \<Longrightarrow> toNumber (Some port) = Num port"
  by (simp add: toNumber_def toDouble_exact)

subsection \<open>Helper lemmas: the codec\<close>

lemma replicate_11: "replicate 11 (0::byte) = [0, 0, 0, 0, 0, 0, 0, 0, 0, 0, 0]"
  by (simp add: numeral_eq_Suc)

lemma create_numeric:
  assumes "split_on 0x2E ip = parts"
    and "parseIntAt parts 0 = Num a" "parseIntAt parts 1 = Num b"
    and "parseIntAt parts 2 = Num c" "parseIntAt parts 3 = Num d"
    and "0 \<le> a" "a \<le> 255" "0 \<le> b" "b \<le> 255" "0 \<le> c" "c \<le> 255" "0 \<le> d" "d \<le> 255"
    and "0 \<le> port" "port \<le> 65535"
  shows "createSampQueryPacket (Some ip) (Some port) =
     Inr [0x53, 0x41, 0x4D, 0x50, of_int a, of_int b, of_int c, of_int d,
          of_int port, of_int (port div 256), 0x69]"
  using assms
  by (simp add: createSampQueryPacket_def Let_def replicate_11 writeUInt8_def
      writeUInt16LE_def toNumber_port)

lemma valid_parts:
  assumes "validTarget ip port"
  obtains p0 p1 p2 p3 where "split_on 0x2E ip = [p0, p1, p2, p3]"
    "isOctet p0" "isOctet p1" "isOctet p2" "isOctet p3"
proof -
  let ?ps = "split_on 0x2E ip"
  have len: "length ?ps = 4" and all: "list_all isOctet ?ps"
    using assms by (simp_all add: validTarget_def)
  from len obtain p0 p1 p2 p3 where ps: "?ps = [p0, p1, p2, p3]"
    by (auto simp: length_Suc_conv numeral_eq_Suc)
  with all that show ?thesis by simp
qed

lemma unat_octet: "n \<le> 255 \<Longrightarrow> unat (word_of_nat n :: byte) = n"
  by (simp add: unat_of_nat)

lemma unat_lo_port: "unat (word_of_int (int n) :: byte) = n mod 256"
  by (simp add: unat_of_nat)

lemma unat_hi_port: "n \<le> 65535 \<Longrightarrow> unat (word_of_int (int (n div 256)) :: byte) = n div 256"
  by (simp add: unat_of_nat)

lemma valid_packet:
  assumes "split_on 0x2E ip = [p0, p1, p2, p3]"
    and "isOctet p0" "isOctet p1" "isOctet p2" "isOctet p3"
    and "0 \<le> port" "port \<le> 65535"
  shows "createSampQueryPacket (Some ip) (Some port) =
     Inr [0x53, 0x41, 0x4D, 0x50, of_int (int (digitsValue 10 p0)),
          of_int (int (digitsValue 10 p1)), of_int (int (digitsValue 10 p2)),
          of_int (int (digitsValue 10 p3)), of_int port, of_int (port div 256), 0x69]"
  using assms(2-)
  by (intro create_numeric[OF assms(1)])
     (simp_all add: parseIntAt_def parseInt_octet isOctet_def)

lemma example_port: "parseInt (js ''7777'') = Num 7777"
  by code_simp

lemma example_valid: "validTarget (js ''51.79.247.157'') 7777"
  by code_simp

lemma example_packet:
  "createSampQueryPacket (Some (js ''51.79.247.157'')) (Some 7777)
     = Inr [0x53, 0x41, 0x4D, 0x50, 51, 79, 247, 157, 0x61, 0x1E, 0x69]"
  by code_simp

lemma toString_take_drop:
  "toString buf start stop = utf8Decode (take (stop - start) (drop start buf))"
  by (simp add: toString_def Let_def)

lemma unat_byte: "unat (word_of_nat n :: byte) = n mod 256"
  by (simp add: unat_of_nat)

lemma le16_value:
  assumes "n < 65536"
  shows "unat (word_of_nat n :: byte) + 256 * unat (word_of_nat (n div 256) :: byte) = n"
  using assms by (simp add: unat_byte)


lemma le32_value:
  assumes "n < 4294967296"
  shows "unat (word_of_nat n :: byte) + 256 * unat (word_of_nat (n div 256) :: byte)
     + 65536 * unat (word_of_nat (n div 65536) :: byte)
     + 16777216 * unat (word_of_nat (n div 16777216) :: byte) = n"
proof -
  define a where "a = n div 256"
  define b where "b = a div 256"
  define c where "c = b div 256"
  have 1: "n = n mod 256 + 256 * a" by (simp add: a_def)
  have 2: "a = a mod 256 + 256 * b" by (simp add: b_def)
  have 3: "b = b mod 256 + 256 * c" by (simp add: c_def)
  have nb: "n div 65536 = b" unfolding b_def a_def by (simp add: div_mult2_eq)
  have nc: "n div 16777216 = c" unfolding c_def b_def a_def by (simp add: div_mult2_eq)
  have "c < 256" unfolding nc[symmetric] using assms by (simp add: less_mult_imp_div_less)
  then have 4: "c mod 256 = c" by simp
  have "n mod 256 + 256 * (a mod 256) + 65536 * (b mod 256) + 16777216 * (c mod 256) = n"
    unfolding 4 using 1 2 3 by linarith
  then show ?thesis
    by (simp only: unat_byte nb nc a_def[symmetric])
qed

lemma nth_from_drop:
  assumes "drop k buf = xs" "j < length xs"
  shows "buf ! (k + j) = xs ! j" "k + j < length buf"
proof -
  from assms have "j < length buf - k" by auto
  then show "k + j < length buf" by simp
  then have "k \<le> length buf" by simp
  then show "buf ! (k + j) = xs ! j" using assms(1) by (metis nth_drop)
qed

lemma readUInt16LE_at:
  assumes "drop k buf = le16 n @ rest" "n < 65536"
  shows "readUInt16LE buf k = Inr n"
proof -
  from assms(1) have d0: "drop k buf = of_nat n # of_nat (n div 256) # rest"
    by (simp add: le16_def)
  from nth_from_drop[OF d0, of 0] nth_from_drop[OF d0, of 1] le16_value[OF assms(2)]
  show ?thesis by (simp add: readUInt16LE_def)
qed

lemma readUInt32LE_at:
  assumes "drop k buf = le32 n @ rest" "n < 4294967296"
  shows "readUInt32LE buf k = Inr n"
proof -
  from assms(1) have d0: "drop k buf
      = of_nat n # of_nat (n div 256) # of_nat (n div 65536) # of_nat (n div 16777216) # rest"
    by (simp add: le32_def)
  from nth_from_drop[OF d0, of 0] nth_from_drop[OF d0, of 1] nth_from_drop[OF d0, of 2]
    nth_from_drop[OF d0, of 3] le32_value[OF assms(2)]
  show ?thesis by (simp add: readUInt32LE_def)
qed

lemma readUInt8_at:
  assumes "drop k buf = b # rest"
  shows "readUInt8 buf k = Inr (unat b)"
  using nth_from_drop[OF assms, of 0] by (simp add: readUInt8_def)

lemma toString_at:
  assumes "drop k buf = s @ rest"
  shows "toString buf k (k + length s) = utf8Decode s"
  using assms by (simp add: toString_take_drop)

lemma length_le [simp]: "length (le16 n) = 2" "length (le32 n) = 4"
  by (simp_all add: le16_def le32_def)

lemma drop_prefix: "B = p @ s \<Longrightarrow> length p = k \<Longrightarrow> drop k B = s"
  by simp

subsection \<open>Helper lemmas: UTF-8\<close>

lemma unat_byte_of: "k < 256 \<Longrightarrow> unat (word_of_nat k :: byte) = k"
  by (simp add: unat_of_nat)

lemma lead_mod:
  "a < 32 \<Longrightarrow> (192 + a) mod 32 = (a::nat)"
  "a < 16 \<Longrightarrow> (224 + a) mod 16 = (a::nat)"
  "a \<le> 4 \<Longrightarrow> (240 + a) mod 8 = (a::nat)"
  using mod_mult_self3[of 6 32 a] mod_mult_self3[of 14 16 a] mod_mult_self3[of 30 8 a]
  by simp_all

lemma cont_facts:
  assumes "unat b = 128 + c" "c < 64"
  shows "isCont b" "contBits b = c"
proof -
  show "isCont b"
    unfolding isCont_def word_le_nat_alt assms(1) using assms(2) by simp
  show "contBits b = c"
    unfolding contBits_def assms(1) using assms(2) mod_mult_self3[of 2 64 c] by simp
qed

lemma decode_1byte:
  assumes "unat b0 = a" "a < 128"
  shows "utf8Decode (b0 # rest) = codePoint a @ utf8Decode rest"
proof -
  have lt: "b0 < 0x80" unfolding word_less_nat_alt assms(1) using assms(2) by simp
  have u: "(ucast b0 :: unit16) = word_of_nat a"
    unfolding assms(1)[symmetric] by simp
  have c: "codePoint a = [word_of_nat a]" using assms(2) by (simp add: codePoint_def)
  show ?thesis
    unfolding c by (simp add: lt u)
qed

lemma decode_2bytes:
  assumes "unat b0 = 192 + a" "2 \<le> a" "a < 32" "unat b1 = 128 + c" "c < 64"
  shows "utf8Decode (b0 # b1 # rest) = codePoint (a * 64 + c) @ utf8Decode rest"
proof -
  have m: "unat b0 mod 32 = a"
    unfolding assms(1) using assms(3) by (rule lead_mod)
  have l: "\<not> b0 < 0x80" "0xC2 \<le> b0" "b0 \<le> 0xDF"
    unfolding word_le_nat_alt word_less_nat_alt assms(1) using assms(2,3) by simp_all
  show ?thesis
    by (simp add: l m cont_facts[OF assms(4,5)])
qed

lemma decode_3bytes:
  assumes "unat b0 = 224 + a" "a < 16" "unat b1 = 128 + c" "c < 64" "unat b2 = 128 + e" "e < 64"
    and "a = 0 \<Longrightarrow> 32 \<le> c" "a = 13 \<Longrightarrow> c < 32"
  shows "utf8Decode (b0 # b1 # b2 # rest) = codePoint ((a * 64 + c) * 64 + e) @ utf8Decode rest"
proof -
  have m: "unat b0 mod 16 = a"
    unfolding assms(1) using assms(2) by (rule lead_mod)
  have l: "\<not> b0 < 0x80" "\<not> (0xC2 \<le> b0 \<and> b0 \<le> 0xDF)" "0xE0 \<le> b0" "b0 \<le> 0xEF"
    unfolding word_le_nat_alt word_less_nat_alt assms(1) using assms(2) by simp_all
  have e0: "b0 = 0xE0 \<longleftrightarrow> a = 0" "b0 = 0xED \<longleftrightarrow> a = 13"
    unfolding word_unat_eq_iff assms(1) by simp_all
  have c: "(if b0 = 0xE0 then 0xA0 else 0x80) \<le> b1 \<and> b1 \<le> (if b0 = 0xED then 0x9F else 0xBF)"
    unfolding e0 word_le_nat_alt using assms(4,7,8) by (auto simp: assms(3))
  show ?thesis
    using c by (simp add: l m cont_facts[OF assms(3,4)] cont_facts[OF assms(5,6)])
qed

lemma decode_4bytes:
  assumes "unat b0 = 240 + a" "a \<le> 4" "unat b1 = 128 + c" "c < 64" "unat b2 = 128 + e" "e < 64"
    and "unat b3 = 128 + f" "f < 64"
    and "a = 0 \<Longrightarrow> 16 \<le> c" "a = 4 \<Longrightarrow> c < 16"
  shows "utf8Decode (b0 # b1 # b2 # b3 # rest)
     = codePoint (((a * 64 + c) * 64 + e) * 64 + f) @ utf8Decode rest"
proof -
  have m: "unat b0 mod 8 = a"
    unfolding assms(1) using assms(2) by (rule lead_mod)
  have l: "\<not> b0 < 0x80" "\<not> (0xC2 \<le> b0 \<and> b0 \<le> 0xDF)" "\<not> (0xE0 \<le> b0 \<and> b0 \<le> 0xEF)"
    "0xF0 \<le> b0" "b0 \<le> 0xF4"
    unfolding word_le_nat_alt word_less_nat_alt assms(1) using assms(2) by simp_all
  have e0: "b0 = 0xF0 \<longleftrightarrow> a = 0" "b0 = 0xF4 \<longleftrightarrow> a = 4"
    unfolding word_unat_eq_iff assms(1) by simp_all
  have c: "(if b0 = 0xF0 then 0x90 else 0x80) \<le> b1 \<and> b1 \<le> (if b0 = 0xF4 then 0x8F else 0xBF)"
    unfolding e0 word_le_nat_alt using assms(4,9,10) by (auto simp: assms(3))
  show ?thesis
    using c by (simp add: l m cont_facts[OF assms(3,4)] cont_facts[OF assms(5,6)]
        cont_facts[OF assms(7,8)])
qed

text \<open>The decoder reads back the code point that the encoder wrote, whatever follows
  it.\<close>

lemma utf8Bytes_decode:
  assumes "isScalarValue n"
  shows "utf8Decode (utf8Bytes n @ rest) = codePoint n @ utf8Decode rest"
proof -
  consider "n < 128" | "128 \<le> n" "n < 2048" | "2048 \<le> n" "n < 65536" | "65536 \<le> n"
    by linarith
  then show ?thesis
  proof cases
    case 1
    define b0 :: byte where "b0 = word_of_nat n"
    have u: "unat b0 = n" unfolding b0_def using 1 by (simp add: unat_of_nat)
    have e: "utf8Bytes n = [b0]" using 1 by (simp add: utf8Bytes_def b0_def)
    from decode_1byte[OF u 1, of rest]
    have "utf8Decode ([b0] @ rest) = codePoint n @ utf8Decode rest"
      by (simp only: append_Cons append_Nil)
    then show ?thesis unfolding e .
  next
    case 2
    define a where "a = n div 64"
    define c where "c = n mod 64"
    define b0 :: byte where "b0 = word_of_nat (192 + a)"
    define b1 :: byte where "b1 = word_of_nat (128 + c)"
    have a: "2 \<le> a" "a < 32" using 2 unfolding a_def by simp_all
    have c: "c < 64" unfolding c_def by simp
    have u: "unat b0 = 192 + a" "unat b1 = 128 + c"
      unfolding b0_def b1_def by (rule unat_byte_of, use a c in simp)+
    have e: "utf8Bytes n = [b0, b1]"
      using 2 by (simp add: utf8Bytes_def b0_def b1_def a_def c_def)
    have n: "a * 64 + c = n" unfolding a_def c_def by simp
    from decode_2bytes[OF u(1) a u(2) c, of rest]
    have "utf8Decode ([b0, b1] @ rest) = codePoint n @ utf8Decode rest"
      unfolding n by (simp only: append_Cons append_Nil)
    then show ?thesis unfolding e .
  next
    case 3
    define a where "a = n div 4096"
    define c where "c = n div 64 mod 64"
    define e where "e = n mod 64"
    define b0 :: byte where "b0 = word_of_nat (224 + a)"
    define b1 :: byte where "b1 = word_of_nat (128 + c)"
    define b2 :: byte where "b2 = word_of_nat (128 + e)"
    have a: "a < 16" using 3 unfolding a_def by simp
    have c: "c < 64" "e < 64" unfolding c_def e_def by simp_all
    have u: "unat b0 = 224 + a" "unat b1 = 128 + c" "unat b2 = 128 + e"
      unfolding b0_def b1_def b2_def by (rule unat_byte_of, use a c in simp)+
    have d: "n div 64 = a * 64 + c"
      unfolding a_def c_def using div_mult2_eq[of n 64 64] by simp
    have n: "(a * 64 + c) * 64 + e = n" unfolding d[symmetric] e_def by simp
    have lo: "32 \<le> c" if "a = 0"
    proof -
      have "32 \<le> n div 64" using 3(1) by simp
      then show ?thesis using d that by simp
    qed
    have hi: "c < 32" if "a = 13"
    proof -
      have "n < 55296" using assms 3 that a_def by (auto simp: isScalarValue_def)
      then have "n div 64 < 864" by simp
      then show ?thesis using d that by simp
    qed
    have bytes: "utf8Bytes n = [b0, b1, b2]"
      using 3 by (simp add: utf8Bytes_def b0_def b1_def b2_def a_def c_def e_def)
    from decode_3bytes[OF u(1) a u(2) c(1) u(3) c(2) lo hi, of rest]
    have "utf8Decode ([b0, b1, b2] @ rest) = codePoint n @ utf8Decode rest"
      unfolding n by (simp only: append_Cons append_Nil)
    then show ?thesis unfolding bytes .
  next
    case 4
    have top: "n < 1114112" using assms 4 by (simp add: isScalarValue_def)
    define a where "a = n div 262144"
    define c where "c = n div 4096 mod 64"
    define e where "e = n div 64 mod 64"
    define f where "f = n mod 64"
    define b0 :: byte where "b0 = word_of_nat (240 + a)"
    define b1 :: byte where "b1 = word_of_nat (128 + c)"
    define b2 :: byte where "b2 = word_of_nat (128 + e)"
    define b3 :: byte where "b3 = word_of_nat (128 + f)"
    have a: "a \<le> 4" using top unfolding a_def by simp
    have c: "c < 64" "e < 64" "f < 64" unfolding c_def e_def f_def by simp_all
    have u: "unat b0 = 240 + a" "unat b1 = 128 + c" "unat b2 = 128 + e" "unat b3 = 128 + f"
      unfolding b0_def b1_def b2_def b3_def by (rule unat_byte_of, use a c in simp)+
    have d1: "n div 64 = (n div 4096) * 64 + e"
      unfolding e_def using div_mult2_eq[of n 64 64] by simp
    have d2: "n div 4096 = a * 64 + c"
      unfolding a_def c_def using div_mult2_eq[of n 4096 64] by simp
    have n: "((a * 64 + c) * 64 + e) * 64 + f = n"
      unfolding d2[symmetric] d1[symmetric] f_def by simp
    have lo: "16 \<le> c" if "a = 0"
    proof -
      have "16 \<le> n div 4096" using 4 by simp
      then show ?thesis using d2 that by simp
    qed
    have hi: "c < 16" if "a = 4"
    proof -
      have "n div 4096 < 272" using top by simp
      then show ?thesis using d2 that by simp
    qed
    have bytes: "utf8Bytes n = [b0, b1, b2, b3]"
      using 4 by (simp add: utf8Bytes_def b0_def b1_def b2_def b3_def a_def c_def e_def f_def)
    from decode_4bytes[OF u(1) a u(2) c(1) u(3) c(2) u(4) c(3) lo hi, of rest]
    have "utf8Decode ([b0, b1, b2, b3] @ rest) = codePoint n @ utf8Decode rest"
      unfolding n by (simp only: append_Cons append_Nil)
    then show ?thesis unfolding bytes .
  qed
qed

lemma utf8Decode_utf8Encode:
  "list_all isScalarValue s \<Longrightarrow>
     utf8Decode (utf8Encode s @ rest) = fromCodePoints s @ utf8Decode rest"
  by (induction s) (simp_all add: utf8Encode_def fromCodePoints_def utf8Bytes_decode)

text \<open>The reader on a payload of the layout, the three strings as bytes: the flag and the
  counts are read back, each string is the text of its bytes, trimmed; what follows the
  language is ignored.\<close>

lemma parse_encodeResponse:
  assumes "length header = 4" "np < 65536" "nmax < 65536"
    and "length h < 4294967296" "length g < 4294967296" "length l < 4294967296"
  shows "parseSampResponse (encodeResponse header pw np nmax h g l @ rest) ip port
     = Inr \<lparr> online = True, password = pw, players = np, maxPlayers = nmax,
             hostname = trim (utf8Decode h), gamemode = trim (utf8Decode g),
             language = trim (utf8Decode l),
             r_ip = ip, r_port = port, version = js ''SA-MP 0.3.7'' \<rparr>"
proof -
  define B where "B = encodeResponse header pw np nmax h g l @ rest"
  have len: "\<not> length B < 11"
    using assms(1) by (simp add: B_def encodeResponse_def)
  let ?f = "(if pw then 1 else 0) :: byte"
  have d4: "drop 4 B = ?f # (le16 np @ le16 nmax @ le32 (length h) @ h
      @ le32 (length g) @ g @ le32 (length l) @ l @ rest)"
    by (rule drop_prefix[where p = header]) (simp_all add: B_def encodeResponse_def assms(1))
  have d5: "drop 5 B = le16 np @ (le16 nmax @ le32 (length h) @ h
      @ le32 (length g) @ g @ le32 (length l) @ l @ rest)"
    by (rule drop_prefix[where p = "header @ [?f]"])
       (simp_all add: B_def encodeResponse_def assms(1))
  have d7: "drop 7 B = le16 nmax @ (le32 (length h) @ h
      @ le32 (length g) @ g @ le32 (length l) @ l @ rest)"
    by (rule drop_prefix[where p = "header @ [?f] @ le16 np"])
       (simp_all add: B_def encodeResponse_def assms(1))
  have d9: "drop 9 B = le32 (length h) @ (h @ le32 (length g) @ g @ le32 (length l) @ l @ rest)"
    by (rule drop_prefix[where p = "header @ [?f] @ le16 np @ le16 nmax"])
       (simp_all add: B_def encodeResponse_def assms(1))
  have d13: "drop 13 B = h @ (le32 (length g) @ g @ le32 (length l) @ l @ rest)"
    by (rule drop_prefix[where p = "header @ [?f] @ le16 np @ le16 nmax @ le32 (length h)"])
       (simp_all add: B_def encodeResponse_def assms(1))
  have dg: "drop (13 + length h) B = le32 (length g) @ (g @ le32 (length l) @ l @ rest)"
    by (rule drop_prefix[where p = "header @ [?f] @ le16 np @ le16 nmax @ le32 (length h) @ h"])
       (simp_all add: B_def encodeResponse_def assms(1))
  have dg': "drop (17 + length h) B = g @ (le32 (length l) @ l @ rest)"
    by (rule drop_prefix[where p = "header @ [?f] @ le16 np @ le16 nmax @ le32 (length h) @ h
          @ le32 (length g)"])
       (simp_all add: B_def encodeResponse_def assms(1))
  have dl: "drop (17 + length h + length g) B = le32 (length l) @ (l @ rest)"
    by (rule drop_prefix[where p = "header @ [?f] @ le16 np @ le16 nmax @ le32 (length h) @ h
          @ le32 (length g) @ g"])
       (simp_all add: B_def encodeResponse_def assms(1))
  have dl': "drop (21 + length h + length g) B = l @ rest"
    by (rule drop_prefix[where p = "header @ [?f] @ le16 np @ le16 nmax @ le32 (length h) @ h
          @ le32 (length g) @ g @ le32 (length l)"])
       (simp_all add: B_def encodeResponse_def assms(1))
  have r4: "readUInt8 B 4 = Inr (if pw then 1 else 0)"
    using readUInt8_at[OF d4] by simp
  note r5 = readUInt16LE_at[OF d5 assms(2)]
  note r7 = readUInt16LE_at[OF d7 assms(3)]
  note r9 = readUInt32LE_at[OF d9 assms(4)]
  note rg = readUInt32LE_at[OF dg assms(5)]
  note rl = readUInt32LE_at[OF dl assms(6)]
  have th: "toString B 13 (13 + length h) = utf8Decode h"
    by (rule toString_at[OF d13])
  have tg: "toString B (17 + length h) (17 + length h + length g) = utf8Decode g"
    by (rule toString_at[OF dg'])
  have tl: "toString B (21 + length h + length g) (21 + length h + length g + length l)
      = utf8Decode l"
    by (rule toString_at[OF dl'])
  have "parseSampResponse B ip port
     = Inr \<lparr> online = True, password = pw, players = np, maxPlayers = nmax,
             hostname = trim (utf8Decode h), gamemode = trim (utf8Decode g),
             language = trim (utf8Decode l),
             r_ip = ip, r_port = port, version = js ''SA-MP 0.3.7'' \<rparr>"
    unfolding parseSampResponse_def Let_def
    using len r4 r5 r7 r9 rg rl th tg tl by (simp add: add.assoc)
  then show ?thesis by (simp only: B_def)
qed

subsection \<open>Helper lemmas: the exchange\<close>

lemma query_sent:
  assumes "createSampQueryPacket ip port = Inr packet" "validatePort port"
  shows "queryRealSampServer ip port ev =
     deliver ev ip port
       \<lparr>trace = [CreateSocket, SetTimeout 5000, Send packet port ip], outcome = None\<rparr>"
  using assms by (simp add: queryRealSampServer_def Let_def did_def)

lemma deliver_pending:
  "deliver ev ip port \<lparr>trace = tr, outcome = None\<rparr> =
     \<lparr>trace = tr @ (if ev = TimerFired then [] else [ClearTimeout]) @ [Close, Settle],
      outcome = Some (case ev of
          Message message \<Rightarrow> (case parseSampResponse message ip port of
                                  Inr serverInfo \<Rightarrow> Inr serverInfo
                                | Inl error \<Rightarrow> Inl (ParseFailed error))
        | SocketError \<Rightarrow> Inl NetworkError
        | SendError \<Rightarrow> Inl SendFailed
        | TimerFired \<Rightarrow> Inl QueryTimeout)\<rparr>"
  by (cases ev)
     (auto simp: deliver_def onMessage_def onError_def onSent_def onTimeout_def did_def
        settle_def Let_def split: sum.splits)

text \<open>The two other ways out of \<^verbatim>\<open>queryRealSampServer\<close>, where no exchange takes place.
  When the packet cannot be built, the promise is rejected and the socket, created before,
  is not closed. When \<^verbatim>\<open>send\<close> refuses the port, the promise is rejected and the socket
  is closed only later, by the timer.\<close>

lemma query_thrown_trace:
  "createSampQueryPacket ip port = Inl e \<Longrightarrow>
     queryRealSampServer ip port ev
       = \<lparr>trace = [CreateSocket, Settle], outcome = Some (Inl (Thrown e))\<rparr>"
  "createSampQueryPacket ip port = Inr packet \<Longrightarrow> \<not> validatePort port \<Longrightarrow>
     queryRealSampServer ip port ev
       = \<lparr>trace = [CreateSocket, SetTimeout 5000, Settle, Close],
          outcome = Some (Inl (Thrown ERR_SOCKET_BAD_PORT))\<rparr>"
  by (simp_all add: queryRealSampServer_def Let_def did_def settle_def onTimeout_def)

text \<open>Every way out of \<^verbatim>\<open>queryRealSampServer\<close>, with what it did and its outcome.\<close>

lemma exchange_paths:
  "queryRealSampServer ip port ev =
     (case createSampQueryPacket ip port of
        Inl e \<Rightarrow> \<lparr>trace = [CreateSocket, Settle], outcome = Some (Inl (Thrown e))\<rparr>
      | Inr packet \<Rightarrow>
          if validatePort port
          then \<lparr>trace = [CreateSocket, SetTimeout 5000, Send packet port ip]
                   @ (if ev = TimerFired then [] else [ClearTimeout]) @ [Close, Settle],
                 outcome = Some (case ev of
                     Message message \<Rightarrow> (case parseSampResponse message ip port of
                                             Inr serverInfo \<Rightarrow> Inr serverInfo
                                           | Inl error \<Rightarrow> Inl (ParseFailed error))
                   | SocketError \<Rightarrow> Inl NetworkError
                   | SendError \<Rightarrow> Inl SendFailed
                   | TimerFired \<Rightarrow> Inl QueryTimeout)\<rparr>
          else \<lparr>trace = [CreateSocket, SetTimeout 5000, Settle, Close],
                 outcome = Some (Inl (Thrown ERR_SOCKET_BAD_PORT))\<rparr>)"
proof (cases "createSampQueryPacket ip port")
  case (Inl e)
  then show ?thesis by (simp add: query_thrown_trace(1))
next
  case (Inr packet)
  then show ?thesis
    by (cases "validatePort port")
       (simp_all add: query_sent deliver_pending query_thrown_trace(2))
qed

lemma example_octet_too_big:
  "createSampQueryPacket (Some (js ''256.1.1.1'')) (Some 7777) = Inl ERR_OUT_OF_RANGE"
  by code_simp

lemma example_octet_too_big_hash: "hashOf (js ''256.1.1.1'') (Some 7777) = Num 8036"
  by code_simp

lemma example_zero_port_packet:
  "createSampQueryPacket (Some (js ''51.79.247.157'')) (Some 0)
     = Inr [0x53, 0x41, 0x4D, 0x50, 51, 79, 247, 157, 0, 0, 0x69]"
  by code_simp

subsection \<open>Helper lemmas: the mock generator\<close>

lemma jsrem_nonneg: "0 \<le> h \<Longrightarrow> jsrem h 5 = h mod 5"
  by (cases "h = 0") (simp_all add: jsrem_def)

lemma length_serverTemplates: "length serverTemplates = 5"
  by (simp add: serverTemplates_def)

lemma gen_cases:
  assumes "generateRealisticMockData ip port d = Inr m"
  obtains ip' h where "ip = Some ip'" "hashOf ip' port = Num h" "0 \<le> jsrem h 5"
    "m = mockRecord (serverTemplates ! nat (jsrem h 5)) h ip port d"
proof -
  from assms obtain ip' where ip: "ip = Some ip'"
    by (cases ip) (simp_all add: generateRealisticMockData_def)
  from assms ip obtain h where h: "hashOf ip' port = Num h"
    by (cases "hashOf ip' port") (simp_all add: generateRealisticMockData_def)
  from assms ip h
  have "0 \<le> jsrem h 5 \<and> m = mockRecord (serverTemplates ! nat (jsrem h 5)) h ip port d"
    by (simp add: generateRealisticMockData_def Let_def length_serverTemplates
        split: if_splits)
  with ip h that show ?thesis by blast
qed

lemma gen_defined:
  assumes "hashOf ip port = Num h" "0 \<le> h"
  shows "generateRealisticMockData (Some ip) port d
     = Inr (mockRecord (serverTemplates ! nat (h mod 5)) h (Some ip) port d)"
  using assms
  by (simp add: generateRealisticMockData_def Let_def length_serverTemplates jsrem_nonneg)

lemma gen_defined_rem:
  assumes "hashOf ip port = Num h" "0 \<le> jsrem h 5"
  shows "generateRealisticMockData (Some ip) port d
     = Inr (mockRecord (serverTemplates ! nat (jsrem h 5)) h (Some ip) port d)"
  using assms
  by (simp add: generateRealisticMockData_def Let_def length_serverTemplates)

lemma mockRecord_fields:
  "hostname (mockRecord T h ip port d) = t_name T"
  "gamemode (mockRecord T h ip port d) = t_gamemode T"
  "language (mockRecord T h ip port d) = t_language T"
  "tags (mockRecord T h ip port d) = t_tags T"
  "r_ip (mockRecord T h ip port d) = ip"
  "r_port (mockRecord T h ip port d) = port"
  "maxPlayers (mockRecord T h ip port d) = 1000"
  "players (mockRecord T h ip port d)
     = nat (max 10 (min 1000 (t_averagePlayers T + int (d_players d) - 50)))"
  "playersList (mockRecord T h ip port d)
     = map (mockPlayer h d)
         [0..<nat (min (max 10 (min 1000 (t_averagePlayers T + int (d_players d) - 50))) 25)]"
  by (simp_all add: mockRecord_def Let_def)

lemma p_id_mockPlayer: "p_id (mockPlayer h d i) = Suc i"
  by (simp add: mockPlayer_def Let_def)

lemma mockRecord_bounds:
  "10 \<le> players (mockRecord T h ip port d) \<and> players (mockRecord T h ip port d) \<le> 1000
   \<and> players (mockRecord T h ip port d) \<le> maxPlayers (mockRecord T h ip port d)
   \<and> length (playersList (mockRecord T h ip port d))
       = min (players (mockRecord T h ip port d)) 25
   \<and> map p_id (playersList (mockRecord T h ip port d))
       = [1..<Suc (min (players (mockRecord T h ip port d)) 25)]"
proof -
  define X where "X = max 10 (min 1000 (t_averagePlayers T + int (d_players d) - 50))"
  have X: "10 \<le> X" "X \<le> 1000" by (simp_all add: X_def)
  have n: "nat (min X 25) = min (nat X) 25" using X by arith
  have p: "players (mockRecord T h ip port d) = nat X"
    by (simp only: mockRecord_fields X_def)
  have l: "playersList (mockRecord T h ip port d) = map (mockPlayer h d) [0..<min (nat X) 25]"
    by (simp only: mockRecord_fields X_def[symmetric] n)
  have mx: "maxPlayers (mockRecord T h ip port d) = 1000"
    by (simp only: mockRecord_fields)
  have ids: "map p_id (map (mockPlayer h d) [0..<k]) = [1..<Suc k]" for k
    by (induction k) (simp_all add: p_id_mockPlayer)
  have b: "10 \<le> nat X" "nat X \<le> 1000" using X by arith+
  show ?thesis
    unfolding p l mx ids using b by simp
qed

lemma hash_valid:
  assumes "validTarget ip port"
  shows "hashOf ip (Some port) = Num (int (sum_list (octets ip)) + port)"
proof -
  obtain p0 p1 p2 p3 where ps: "split_on 0x2E ip = [p0, p1, p2, p3]"
    and o: "isOctet p0" "isOctet p1" "isOctet p2" "isOctet p3"
    using assms by (rule valid_parts)
  have port: "0 \<le> port" "port \<le> 65535" using assms by (simp_all add: validTarget_def)
  have v: "digitsValue 10 p0 \<le> 255" "digitsValue 10 p1 \<le> 255"
    "digitsValue 10 p2 \<le> 255" "digitsValue 10 p3 \<le> 255"
    using o by (simp_all add: isOctet_def)
  show ?thesis
    using v port
    by (simp add: hashOf_def ps parseInt_octet o toNumber_port octets_def toDouble_exact)
qed

lemma gen_valid:
  assumes "validTarget ip port"
  shows "generateRealisticMockData (Some ip) (Some port) d
     = Inr (mockRecord (serverTemplates ! ((sum_list (octets ip) + nat port) mod 5))
              (int (sum_list (octets ip)) + port) (Some ip) (Some port) d)"
proof -
  have port: "1 \<le> port" using assms by (simp add: validTarget_def)
  let ?h = "int (sum_list (octets ip)) + port"
  have h: "0 \<le> ?h" using port by simp
  have "?h = int (sum_list (octets ip) + nat port)" using port by simp
  then have "nat (?h mod 5) = (sum_list (octets ip) + nat port) mod 5"
    by (metis nat_int of_nat_numeral zmod_int)
  with gen_defined[OF hash_valid[OF assms] h, of d] show ?thesis by simp
qed

lemma example_hash: "hashOf (js ''51.79.247.157'') (Some 7777) = Num 8311"
  by code_simp

lemma example_octets: "octets (js ''51.79.247.157'') = [51, 79, 247, 157]"
  by code_simp

subsection \<open>Helper lemmas: the handlers\<close>

lemma example_decode:
  "parseSampResponse (examplePayload h0 h1 h2 h3) ip port
   = Inr \<lparr> online = True, password = False, players = 42, maxPlayers = 100,
           hostname = js ''MyServer'', gamemode = js ''DM'', language = js ''EN'',
           r_ip = ip, r_port = port, version = js ''SA-MP 0.3.7'' \<rparr>"
  by (simp add: examplePayload_def parseSampResponse_def Let_def readUInt8_def
      readUInt16LE_def readUInt32LE_def toString_def trim_def isWhiteSpace_def js_def
      isCont_def)

lemma valid_exchange:
  assumes "validTarget ip port"
  shows "\<exists>packet. createSampQueryPacket (Some ip) (Some port) = Inr packet"
    and "validatePort (Some port)"
proof -
  obtain p0 p1 p2 p3 where ps: "split_on 0x2E ip = [p0, p1, p2, p3]"
    and o: "isOctet p0" "isOctet p1" "isOctet p2" "isOctet p3"
    using assms by (rule valid_parts)
  have port: "1 \<le> port" "port \<le> 65535"
    using assms by (simp_all add: validTarget_def)
  from valid_packet[OF ps o, of port] port
  show "\<exists>packet. createSampQueryPacket (Some ip) (Some port) = Inr packet" by simp
  show "validatePort (Some port)" using port by (simp add: validatePort_def)
qed

lemma valid_outcome:
  assumes "validTarget ip port"
  shows "outcome (queryRealSampServer (Some ip) (Some port) ev) =
     Some (case ev of
          Message message \<Rightarrow> (case parseSampResponse message (Some ip) (Some port) of
                                  Inr serverInfo \<Rightarrow> Inr serverInfo
                                | Inl error \<Rightarrow> Inl (ParseFailed error))
        | SocketError \<Rightarrow> Inl NetworkError
        | SendError \<Rightarrow> Inl SendFailed
        | TimerFired \<Rightarrow> Inl QueryTimeout)"
proof -
  from valid_exchange[OF assms] obtain packet
    where "createSampQueryPacket (Some ip) (Some port) = Inr packet" "validatePort (Some port)"
    by blast
  then show ?thesis by (simp add: query_sent deliver_pending)
qed

lemma js_nonempty: "js (c # cs) \<noteq> []"
  by (simp add: js_def)

lemma example_zero_port: "parseInt (js ''0'') = Num 0"
  by code_simp

lemma handler_accepts:
  assumes "ip \<noteq> []" "parseInt port = Num n" "1 \<le> n" "n \<le> 65535"
  shows "get_api_samp_server (Some ip) (Some port) ev d =
     (case outcome (queryRealSampServer (Some ip) (Some n) ev) of
        Some (Inr serverInfo) \<Rightarrow>
          (trace (queryRealSampServer (Some ip) (Some n) ev),
           Success (RealData serverInfo) ip n SourceReal)
      | _ \<Rightarrow>
          (case generateRealisticMockData (Some ip) (Some n) d of
             Inr mockData \<Rightarrow>
               (trace (queryRealSampServer (Some ip) (Some n) ev),
                Success (MockData mockData) ip n SourceMock)
           | Inl e \<Rightarrow> (trace (queryRealSampServer (Some ip) (Some n) ev), Uncaught e)))"
proof -
  have "port \<noteq> []" using assms(2) by (auto simp: parseInt_def)
  then show ?thesis
    using assms by (simp add: get_api_samp_server_def falsy_def Let_def)
qed

lemma queryOrMock_cases:
  "queryOrMock server ev d = Inr item \<longleftrightarrow>
     (case outcome (queryRealSampServer (q_ip server) (q_port server) ev) of
        Some (Inr data) \<Rightarrow> item = RealItem data server
      | _ \<Rightarrow> (\<exists>mockData. generateRealisticMockData (q_ip server) (q_port server) d = Inr mockData
                 \<and> item = MockItem mockData server))"
  by (auto simp: queryOrMock_def split: option.splits sum.splits)

lemma queryOrMock_valid:
  assumes "validQuery server"
  shows "\<exists>item. queryOrMock server ev d = Inr item"
proof -
  from assms obtain ip port where s: "q_ip server = Some ip" "q_port server = Some port"
    and v: "validTarget ip port"
    by (auto simp: validQuery_def split: option.splits)
  from gen_valid[OF v, of d]
  show ?thesis
    by (auto simp: queryOrMock_def s split: option.splits sum.splits)
qed

lemma batchLoop_items:
  assumes "\<forall>j<length servers. queryOrMock (servers ! j) (ev (i + j)) (rnd (i + j)) = Inr (f (i + j))"
  shows "batchLoop servers i ev rnd acc = Inr (acc @ map (\<lambda>j. f (i + j)) [0..<length servers])"
  using assms
proof (induction servers arbitrary: i acc)
  case Nil
  then show ?case by simp
next
  case (Cons server rest)
  from Cons.prems have hd: "queryOrMock server (ev i) (rnd i) = Inr (f i)"
    by force
  have "\<forall>j<length rest. queryOrMock (rest ! j) (ev (Suc i + j)) (rnd (Suc i + j))
          = Inr (f (Suc i + j))"
  proof (intro allI impI)
    fix j assume "j < length rest"
    then have "Suc j < length (server # rest)" by simp
    from Cons.prems[rule_format, OF this] show
      "queryOrMock (rest ! j) (ev (Suc i + j)) (rnd (Suc i + j)) = Inr (f (Suc i + j))"
      by simp
  qed
  from Cons.IH[OF this, of "acc @ [f i]"]
  have "batchLoop rest (Suc i) ev rnd (acc @ [f i])
      = Inr (acc @ f i # map (\<lambda>j. f (Suc (i + j))) [0..<length rest])"
    by simp
  moreover have "map (\<lambda>j. f (i + j)) [0..<length (server # rest)]
      = f i # map (\<lambda>j. f (Suc (i + j))) [0..<length rest]"
    by (simp add: map_upt_Suc del: upt_Suc)
  ultimately show ?case
    by (simp only: batchLoop.simps hd sum.case)
qed

lemma example_hostname_hash: "hashOf (js ''play.example.com'') (Some 7777) = NaN"
  by code_simp

lemma example_hostname_packet:
  "createSampQueryPacket (Some (js ''play.example.com'')) (Some 7777)
     = Inr [0x53, 0x41, 0x4D, 0x50, 0, 0, 0, 0, 0x61, 0x1E, 0x69]"
  by code_simp

lemma example_noport_packet:
  "createSampQueryPacket (Some (js ''51.79.247.157'')) None
     = Inr [0x53, 0x41, 0x4D, 0x50, 51, 79, 247, 157, 0, 0, 0x69]"
  by code_simp

lemma timeout_outcome:
  assumes "createSampQueryPacket ip port = Inr packet" "validatePort port"
  shows "outcome (queryRealSampServer ip port TimerFired) = Some (Inl QueryTimeout)"
  by (simp add: query_sent[OF assms] deliver_pending)

lemma example_short_packet:
  "createSampQueryPacket (Some (js ''1.2.3'')) (Some 7777)
     = Inr [0x53, 0x41, 0x4D, 0x50, 1, 2, 3, 0, 0x61, 0x1E, 0x69]"
  by code_simp

lemma example_short_hash: "hashOf (js ''1.2.3'') (Some 7777) = Num 7783"
  by code_simp

lemma example_localhost_packet:
  "createSampQueryPacket (Some (js ''localhost'')) (Some 7777)
     = Inr [0x53, 0x41, 0x4D, 0x50, 0, 0, 0, 0, 0x61, 0x1E, 0x69]"
  by code_simp

lemma example_negative_packet:
  "createSampQueryPacket (Some (js ''-5.2.3.4'')) (Some 7777) = Inl ERR_OUT_OF_RANGE"
  by code_simp

lemma example_negative_hash: "hashOf (js ''-5.2.3.4'') (Some 7777) = Num 7781"
  by code_simp

text \<open>An address part whose digits write \<open>2^1024\<close> or more is read as \<^verbatim>\<open>Infinity\<close>: the
  packet writer throws, the hash is \<^verbatim>\<open>Infinity\<close>, its remainder is \<open>NaN\<close>, and the mock
  generator throws in the \<^verbatim>\<open>catch\<close> block. So it is for the address of 310 digits
  \<^verbatim>\<open>9\<close>.\<close>

lemma split_on_single: "sep \<notin> set p \<Longrightarrow> split_on sep p = [p]"
  by (induction p) (auto simp: Let_def)

lemma nines_value:
  "Suc (foldl (\<lambda>acc c. case digitValue c of None \<Rightarrow> acc | Some d \<Rightarrow> acc * 10 + d) acc
          (replicate n 0x39)) = Suc acc * 10 ^ n"
proof (induction n arbitrary: acc)
  case 0
  then show ?case by simp
next
  case (Suc n)
  have d: "digitValue 0x39 = Some 9" by (simp add: digitValue_def)
  have "Suc (acc * 10 + 9) * 10 ^ n = Suc acc * 10 ^ Suc n" by (simp add: algebra_simps)
  with Suc.IH[of "acc * 10 + 9"] show ?case
    by (simp add: d)
qed

lemma huge_part_raises:
  assumes "p \<noteq> []" "list_all isDecimalDigit p" "2 ^ 1024 \<le> int (digitsValue 10 p)"
    and "parseInt port = Num n" "1 \<le> n" "n \<le> 65535"
  shows "get_api_samp_server (Some p) (Some port) ev d
     = ([CreateSocket, Settle], Uncaught TypeError)"
proof -
  have inf: "parseInt p = Infinity"
    unfolding parseInt_digits[OF assms(1,2)] by (rule toDouble_overflow[OF assms(3)])
  have "0x2E \<notin> set p"
    using assms(2) digit_facts(6) by (auto simp: list_all_iff)
  then have sp: "split_on 0x2E p = [p]" by (rule split_on_single)
  have pk: "createSampQueryPacket (Some p) (Some n) = Inl ERR_OUT_OF_RANGE"
    by (simp add: createSampQueryPacket_def Let_def sp parseIntAt_def inf writeUInt8_def)
  have port: "toNumber (Some n) = Num n" using assms(5,6) by (simp add: toNumber_port)
  have h: "hashOf p (Some n) = Infinity"
    by (simp add: hashOf_def sp inf port)
  have g: "generateRealisticMockData (Some p) (Some n) d = Inl TypeError"
    by (simp add: generateRealisticMockData_def h)
  show ?thesis
    unfolding handler_accepts[OF assms(1,4,5,6)] query_thrown_trace(1)[OF pk] g by simp
qed

lemma example_huge_part:
  "get_api_samp_server (Some (replicate 310 0x39)) (Some (js ''7777'')) ev d
     = ([CreateSocket, Settle], Uncaught TypeError)"
proof (rule huge_part_raises[OF _ _ _ example_port])
  show "replicate 310 (0x39 :: unit16) \<noteq> []" by simp
  show "list_all isDecimalDigit (replicate 310 0x39)"
    by (simp add: list_all_iff isDecimalDigit_def)
  have "Suc (digitsValue 10 (replicate 310 0x39)) = 10 ^ 310"
    unfolding digitsValue_def using nines_value[of 0 310] by simp
  then have "int (digitsValue 10 (replicate 310 0x39)) = 10 ^ 310 - 1"
    by (metis add_diff_cancel_left' of_nat_Suc of_nat_numeral of_nat_power)
  then show "2 ^ 1024 \<le> int (digitsValue 10 (replicate 310 0x39))"
    by simp
qed simp_all

subsection \<open>The query packet\<close>

text \<open>
  Claim C3. For every valid target (an IPv4 address of four octets, each 0 to 255, and a
  port from 1 to 65535), \<^verbatim>\<open>createSampQueryPacket\<close> returns a packet of exactly 11
  bytes: the ASCII tag \<^verbatim>\<open>SAMP\<close> at offsets 0 to 3, the four octets of the address
  in order at offsets 4 to 7, the port as an unsigned 16-bit little-endian integer at
  offsets 8 and 9 (low byte first), and the constant \<^verbatim>\<open>0x69\<close> (\<^verbatim>\<open>'i'\<close>, the
  information query) at offset 10.
\<close>

theorem encodeQuery_layout:
  assumes "validTarget ip port"
  shows "\<exists>packet. createSampQueryPacket (Some ip) (Some port) = Inr packet
           \<and> length packet = 11
           \<and> take 4 packet = [0x53, 0x41, 0x4D, 0x50]
           \<and> map unat (take 4 (drop 4 packet)) = octets ip
           \<and> unat (packet ! 8) = nat port mod 256
           \<and> unat (packet ! 9) = nat port div 256
           \<and> packet ! 10 = 0x69"
proof -
  obtain p0 p1 p2 p3 where ps: "split_on 0x2E ip = [p0, p1, p2, p3]"
    and o: "isOctet p0" "isOctet p1" "isOctet p2" "isOctet p3"
    using assms by (rule valid_parts)
  have port: "1 \<le> port" "port \<le> 65535"
    using assms by (simp_all add: validTarget_def)
  have v: "digitsValue 10 p0 \<le> 255" "digitsValue 10 p1 \<le> 255"
    "digitsValue 10 p2 \<le> 255" "digitsValue 10 p3 \<le> 255"
    using o by (simp_all add: isOctet_def)
  have pk: "createSampQueryPacket (Some ip) (Some port) =
     Inr [0x53, 0x41, 0x4D, 0x50, of_int (int (digitsValue 10 p0)),
          of_int (int (digitsValue 10 p1)), of_int (int (digitsValue 10 p2)),
          of_int (int (digitsValue 10 p3)), of_int port, of_int (port div 256), 0x69]"
    using port by (intro valid_packet[OF ps o]) simp_all
  have lo: "unat (word_of_int port :: byte) = nat port mod 256"
    using port unat_lo_port[of "nat port"] by simp
  have hi: "unat (word_of_int (port div 256) :: byte) = nat port div 256"
    using port unat_hi_port[of "nat port"] by (simp add: zdiv_int)
  show ?thesis
    using v lo hi by (simp add: pk octets_def ps unat_octet)
qed

theorem encodeQuery_layout_witness:
  "validTarget (js ''51.79.247.157'') 7777
   \<and> createSampQueryPacket (Some (js ''51.79.247.157'')) (Some 7777)
       = Inr [0x53, 0x41, 0x4D, 0x50, 51, 79, 247, 157, 0x61, 0x1E, 0x69]
   \<and> octets (js ''51.79.247.157'') = [51, 79, 247, 157]"
proof -
  have oc: "octets (js ''51.79.247.157'') = [51, 79, 247, 157]" by code_simp
  from encodeQuery_layout[OF example_valid] example_packet oc example_valid
  show ?thesis by simp
qed

subsection \<open>The response reader\<close>

text \<open>
  Claim C7. For every response buffer of fewer than 11 bytes, \<^verbatim>\<open>parseSampResponse\<close>
  throws its short-response error and returns no record.
\<close>

theorem decodeResponse_short:
  "length buffer < 11 \<Longrightarrow> parseSampResponse buffer ip port = Inl ShortResponse"
  by (simp add: parseSampResponse_def)

theorem decodeResponse_short_witness:
  "length [0x53, 0x41, 0x4D, 0x50, 0, 42, 0, 100, 0, 0 :: byte] < 11
   \<and> parseSampResponse [0x53, 0x41, 0x4D, 0x50, 0, 42, 0, 100, 0, 0]
        (Some (js ''51.79.247.157'')) (Some 7777) = Inl ShortResponse"
  using decodeResponse_short[of "[0x53, 0x41, 0x4D, 0x50, 0, 42, 0, 100, 0, 0]"
      "Some (js ''51.79.247.157'')" "Some 7777"]
  by simp

text \<open>
  Claim C8. Decoding a well-formed payload yields the encoded field values, with each
  string trimmed of surrounding white space: for every payload that the reference
  encoder writes (four header bytes, the password flag, the player count and the
  maximum player count, below 65536, and the hostname, the gamemode and the language,
  each any sequence of Unicode scalar values in UTF-8 behind its length), followed by any
  bytes, the record has this flag, these counts, and these three strings, trimmed. The
  example of the claim (target \<^verbatim>\<open>51.79.247.157:7777\<close>, 42 players, 100 maximum players,
  hostname \<^verbatim>\<open>" MyServer "\<close>, gamemode \<^verbatim>\<open>"DM"\<close>, language \<^verbatim>\<open>"EN"\<close>, no password)
  follows the theorem.
\<close>

theorem decodeResponse_roundtrip:
  assumes "length header = 4" "np < 65536" "nmax < 65536"
    and "list_all isScalarValue h" "list_all isScalarValue g" "list_all isScalarValue l"
    and "length (utf8Encode h) < 4294967296" "length (utf8Encode g) < 4294967296"
      "length (utf8Encode l) < 4294967296"
  shows "parseSampResponse (serverSideEncode header pw np nmax h g l @ rest) ip port
     = Inr \<lparr> online = True, password = pw, players = np, maxPlayers = nmax,
             hostname = trim (fromCodePoints h), gamemode = trim (fromCodePoints g),
             language = trim (fromCodePoints l),
             r_ip = ip, r_port = port, version = js ''SA-MP 0.3.7'' \<rparr>"
proof -
  have d: "utf8Decode (utf8Encode h) = fromCodePoints h"
    "utf8Decode (utf8Encode g) = fromCodePoints g"
    "utf8Decode (utf8Encode l) = fromCodePoints l"
    using utf8Decode_utf8Encode[OF assms(4), of "[]"] utf8Decode_utf8Encode[OF assms(5), of "[]"]
      utf8Decode_utf8Encode[OF assms(6), of "[]"]
    by simp_all
  show ?thesis
    unfolding serverSideEncode_def
    by (simp only: parse_encodeResponse[OF assms(1,2,3,7,8,9)] d)
qed

text \<open>The example: the record has hostname \<^verbatim>\<open>"MyServer"\<close>, and the single-target handler
  that receives the payload answers with the record and \<^verbatim>\<open>source: 'real'\<close>. And the
  payload whose strings are not ASCII: the hostname of the record is the six Cyrillic
  letters, \<^verbatim>\<open>" RP "\<close> and the surrogate pair \<^verbatim>\<open>D83D DE00\<close> of U+1F600, without the
  ideographic space before and the no-break space after.\<close>

theorem decodeResponse_example:
  "examplePayload 0x53 0x41 0x4D 0x50
     = serverSideEncode [0x53, 0x41, 0x4D, 0x50] False 42 100
         (map of_char '' MyServer '') (map of_char ''DM'') (map of_char ''EN'')
   \<and> parseSampResponse (examplePayload 0x53 0x41 0x4D 0x50)
       (Some (js ''51.79.247.157'')) (Some 7777)
     = Inr \<lparr> online = True, password = False, players = 42, maxPlayers = 100,
             hostname = js ''MyServer'', gamemode = js ''DM'', language = js ''EN'',
             r_ip = Some (js ''51.79.247.157''), r_port = Some 7777,
             version = js ''SA-MP 0.3.7'' \<rparr>
   \<and> snd (get_api_samp_server (Some (js ''51.79.247.157'')) (Some (js ''7777''))
          (Message (examplePayload 0x53 0x41 0x4D 0x50)) exampleDraws)
     = Success (RealData
         \<lparr> online = True, password = False, players = 42, maxPlayers = 100,
           hostname = js ''MyServer'', gamemode = js ''DM'', language = js ''EN'',
           r_ip = Some (js ''51.79.247.157''), r_port = Some 7777,
           version = js ''SA-MP 0.3.7'' \<rparr>)
       (js ''51.79.247.157'') 7777 SourceReal
   \<and> exampleUnicodePayload
     = serverSideEncode [0x53, 0x41, 0x4D, 0x50] True 3 50
         exampleHostname (map of_char ''DM'') exampleLanguage
   \<and> parseSampResponse exampleUnicodePayload (Some (js ''51.79.247.157'')) (Some 7777)
     = Inr \<lparr> online = True, password = True, players = 3, maxPlayers = 50,
             hostname = [0x420, 0x43E, 0x441, 0x441, 0x438, 0x44F, 0x20, 0x52, 0x50, 0x20,
                         0xD83D, 0xDE00],
             gamemode = js ''DM'',
             language = [0x420, 0x443, 0x441, 0x441, 0x43A, 0x438, 0x439],
             r_ip = Some (js ''51.79.247.157''), r_port = Some 7777,
             version = js ''SA-MP 0.3.7'' \<rparr>"
proof -
  have v: "validatePort (Some 7777)" by (simp add: validatePort_def)
  have e: "examplePayload 0x53 0x41 0x4D 0x50
     = serverSideEncode [0x53, 0x41, 0x4D, 0x50] False 42 100
         (map of_char '' MyServer '') (map of_char ''DM'') (map of_char ''EN'')"
    by (simp add: examplePayload_def serverSideEncode_def encodeResponse_def le16_def le32_def
        utf8Encode_def utf8Bytes_def)
  from decodeResponse_roundtrip[of "[0x53, 0x41, 0x4D, 0x50]" 42 100
      "map of_char '' MyServer ''" "map of_char ''DM''" "map of_char ''EN''" False "[]"
      "Some (js ''51.79.247.157'')" "Some 7777"]
  have p: "parseSampResponse (examplePayload 0x53 0x41 0x4D 0x50)
       (Some (js ''51.79.247.157'')) (Some 7777)
     = Inr \<lparr> online = True, password = False, players = 42, maxPlayers = 100,
             hostname = js ''MyServer'', gamemode = js ''DM'', language = js ''EN'',
             r_ip = Some (js ''51.79.247.157''), r_port = Some 7777,
             version = js ''SA-MP 0.3.7'' \<rparr>"
    by (simp add: e trim_def isWhiteSpace_def js_def isScalarValue_def utf8Encode_def
        utf8Bytes_def fromCodePoints_def codePoint_def)
  have h: "snd (get_api_samp_server (Some (js ''51.79.247.157'')) (Some (js ''7777''))
          (Message (examplePayload 0x53 0x41 0x4D 0x50)) exampleDraws)
     = Success (RealData
         \<lparr> online = True, password = False, players = 42, maxPlayers = 100,
           hostname = js ''MyServer'', gamemode = js ''DM'', language = js ''EN'',
           r_ip = Some (js ''51.79.247.157''), r_port = Some 7777,
           version = js ''SA-MP 0.3.7'' \<rparr>)
       (js ''51.79.247.157'') 7777 SourceReal"
    by (simp add: p handler_accepts[OF js_nonempty example_port]
        query_sent[OF example_packet v] deliver_pending)
  have e': "exampleUnicodePayload
     = serverSideEncode [0x53, 0x41, 0x4D, 0x50] True 3 50
         exampleHostname (map of_char ''DM'') exampleLanguage"
    by (simp add: exampleUnicodePayload_def serverSideEncode_def encodeResponse_def le16_def
        le32_def utf8Encode_def utf8Bytes_def exampleHostname_def exampleLanguage_def)
  from decodeResponse_roundtrip[of "[0x53, 0x41, 0x4D, 0x50]" 3 50
      exampleHostname "map of_char ''DM''" exampleLanguage True "[]"
      "Some (js ''51.79.247.157'')" "Some 7777"]
  have p': "parseSampResponse exampleUnicodePayload (Some (js ''51.79.247.157'')) (Some 7777)
     = Inr \<lparr> online = True, password = True, players = 3, maxPlayers = 50,
             hostname = [0x420, 0x43E, 0x441, 0x441, 0x438, 0x44F, 0x20, 0x52, 0x50, 0x20,
                         0xD83D, 0xDE00],
             gamemode = js ''DM'',
             language = [0x420, 0x443, 0x441, 0x441, 0x43A, 0x438, 0x439],
             r_ip = Some (js ''51.79.247.157''), r_port = Some 7777,
             version = js ''SA-MP 0.3.7'' \<rparr>"
    by (simp add: e' trim_def isWhiteSpace_def js_def isScalarValue_def utf8Encode_def
        utf8Bytes_def fromCodePoints_def codePoint_def exampleHostname_def
        exampleLanguage_def)
  show ?thesis
    by (rule conjI[OF e conjI[OF p conjI[OF h conjI[OF e' p']]]])
qed

text \<open>
  Claim C2, as amended. For every response buffer of at least 11 bytes in which the
  hostname or the gamemode length prefix would make the string read extend past the end
  of the buffer, \<^verbatim>\<open>parseSampResponse\<close> throws (the out-of-range error of the read of
  the next length prefix) and returns no record. A language length prefix is never an
  error: the language is the text of as many of the \<open>ll\<close> bytes as the buffer has.
\<close>

theorem decodeResponse_overrun:
  assumes "11 \<le> length buffer"
  shows "(readUInt32LE buffer 9 = Inr hl \<and> length buffer < 13 + hl \<longrightarrow>
            parseSampResponse buffer ip port = Inl ERR_OUT_OF_RANGE)
       \<and> (readUInt32LE buffer 9 = Inr hl \<and> readUInt32LE buffer (13 + hl) = Inr gl
            \<and> length buffer < 17 + hl + gl \<longrightarrow>
            parseSampResponse buffer ip port = Inl ERR_OUT_OF_RANGE)
       \<and> (readUInt32LE buffer 9 = Inr hl \<and> readUInt32LE buffer (13 + hl) = Inr gl
            \<and> readUInt32LE buffer (17 + hl + gl) = Inr ll \<longrightarrow>
            (\<exists>r. parseSampResponse buffer ip port = Inr r
               \<and> language r = trim (utf8Decode (take ll (drop (21 + hl + gl) buffer)))))"
proof -
  have r8: "\<exists>b. readUInt8 buffer 4 = Inr b" using assms by (simp add: readUInt8_def)
  have r16: "\<exists>p. readUInt16LE buffer 5 = Inr p" "\<exists>p. readUInt16LE buffer 7 = Inr p"
    using assms by (simp_all add: readUInt16LE_def)
  have oob: "\<And>k. length buffer < k + 4 \<Longrightarrow> readUInt32LE buffer k = Inl ERR_OUT_OF_RANGE"
    by (simp add: readUInt32LE_def)
  show ?thesis
    using assms r8 r16 oob[of "13 + hl"] oob[of "17 + hl + gl"]
    by (auto simp: parseSampResponse_def Let_def toString_take_drop add.commute
        add.left_commute)
qed

text \<open>The three cases at three buffers: a hostname prefix of 9 with 3 bytes left, a
  gamemode prefix of 7 with 1 byte left, a language prefix of 5 with 2 bytes left.\<close>

theorem decodeResponse_overrun_witness:
  "parseSampResponse [0, 0, 0, 0, 0, 42, 0, 100, 0, 9, 0, 0, 0, 0x41, 0x42, 0x43]
       (Some (js ''51.79.247.157'')) (Some 7777) = Inl ERR_OUT_OF_RANGE
   \<and> parseSampResponse
       [0, 0, 0, 0, 0, 42, 0, 100, 0, 2, 0, 0, 0, 0x41, 0x42, 7, 0, 0, 0, 0x43]
       (Some (js ''51.79.247.157'')) (Some 7777) = Inl ERR_OUT_OF_RANGE
   \<and> (\<exists>r. parseSampResponse
       [0, 0, 0, 0, 0, 42, 0, 100, 0, 0, 0, 0, 0, 0, 0, 0, 0, 5, 0, 0, 0, 0x45, 0x4E]
       (Some (js ''51.79.247.157'')) (Some 7777) = Inr r \<and> language r = js ''EN'')"
  using
    decodeResponse_overrun[of "[0, 0, 0, 0, 0, 42, 0, 100, 0, 9, 0, 0, 0, 0x41, 0x42, 0x43]"
      9 "Some (js ''51.79.247.157'')" "Some 7777" 0 0]
    decodeResponse_overrun[of
      "[0, 0, 0, 0, 0, 42, 0, 100, 0, 2, 0, 0, 0, 0x41, 0x42, 7, 0, 0, 0, 0x43]"
      2 "Some (js ''51.79.247.157'')" "Some 7777" 7 0]
    decodeResponse_overrun[of
      "[0, 0, 0, 0, 0, 42, 0, 100, 0, 0, 0, 0, 0, 0, 0, 0, 0, 5, 0, 0, 0, 0x45, 0x4E]"
      0 "Some (js ''51.79.247.157'')" "Some 7777" 0 5]
  by (simp add: readUInt32LE_def trim_def isWhiteSpace_def js_def)

text \<open>The claim as it was stated (an error for every length prefix that reaches past the
  end) fails for the language: this buffer of 23 bytes has a language prefix of 5 at
  offset 17 and only 2 bytes after it, and a record is returned.\<close>

theorem decodeResponse_overrun_counterexample:
  "length [0, 0, 0, 0, 0, 42, 0, 100, 0, 0, 0, 0, 0, 0, 0, 0, 0, 5, 0, 0, 0, 0x45, 0x4E :: byte]
     \<ge> 11
   \<and> readUInt32LE
       [0, 0, 0, 0, 0, 42, 0, 100, 0, 0, 0, 0, 0, 0, 0, 0, 0, 5, 0, 0, 0, 0x45, 0x4E] 17
     = Inr 5
   \<and> 21 + 5 >
     length [0, 0, 0, 0, 0, 42, 0, 100, 0, 0, 0, 0, 0, 0, 0, 0, 0, 5, 0, 0, 0, 0x45, 0x4E :: byte]
   \<and> parseSampResponse
       [0, 0, 0, 0, 0, 42, 0, 100, 0, 0, 0, 0, 0, 0, 0, 0, 0, 5, 0, 0, 0, 0x45, 0x4E]
       (Some (js ''51.79.247.157'')) (Some 7777)
     = Inr \<lparr> online = True, password = False, players = 42, maxPlayers = 100,
             hostname = [], gamemode = [], language = js ''EN'',
             r_ip = Some (js ''51.79.247.157''), r_port = Some 7777,
             version = js ''SA-MP 0.3.7'' \<rparr>"
  by (simp add: parseSampResponse_def Let_def readUInt8_def readUInt16LE_def readUInt32LE_def
      toString_def trim_def isWhiteSpace_def js_def isCont_def)

subsection \<open>The exchange\<close>

text \<open>
  Claim C9. When the timer of 5000 ms fires before any datagram, the exchange reports the
  timeout failure; and on every exit path of an exchange the socket is to be closed before
  the outcome is reported, never held or leaked. The program does this on the four paths of
  its callbacks (a message, a socket error, a send error, the timer): there the socket is
  closed, then the promise settled. It does not on the two other ways out of
  \<^verbatim>\<open>queryRealSampServer\<close>. For the address \<^verbatim>\<open>256.1.1.1\<close>, which the single-target
  handler accepts, \<^verbatim>\<open>createSampQueryPacket\<close> throws after the socket has been created:
  the promise is rejected and the socket is never closed. For the port 0 or a missing
  port, which the batch handler accepts, \<^verbatim>\<open>send\<close> throws: the promise is rejected while
  the socket is open, and the socket is closed only when the timer fires. The last
  conjunct is the trace and the outcome on every way out, for every address, port and
  event.
\<close>

theorem exchange_leaks_socket:
  "queryRealSampServer (Some (js ''256.1.1.1'')) (Some 7777) ev
     = \<lparr>trace = [CreateSocket, Settle], outcome = Some (Inl (Thrown ERR_OUT_OF_RANGE))\<rparr>
   \<and> get_api_samp_server (Some (js ''256.1.1.1'')) (Some (js ''7777'')) ev d
     = ([CreateSocket, Settle],
        Success (MockData (mockRecord (serverTemplates ! 1) 8036 (Some (js ''256.1.1.1''))
                             (Some 7777) d))
          (js ''256.1.1.1'') 7777 SourceMock)
   \<and> queryRealSampServer (Some (js ''51.79.247.157'')) (Some 0) ev
     = \<lparr>trace = [CreateSocket, SetTimeout 5000, Settle, Close],
        outcome = Some (Inl (Thrown ERR_SOCKET_BAD_PORT))\<rparr>
   \<and> queryRealSampServer (Some (js ''51.79.247.157'')) None ev
     = \<lparr>trace = [CreateSocket, SetTimeout 5000, Settle, Close],
        outcome = Some (Inl (Thrown ERR_SOCKET_BAD_PORT))\<rparr>
   \<and> queryRealSampServer (Some (js ''51.79.247.157'')) (Some 7777) TimerFired
     = \<lparr>trace = [CreateSocket, SetTimeout 5000,
                 Send [0x53, 0x41, 0x4D, 0x50, 51, 79, 247, 157, 0x61, 0x1E, 0x69] (Some 7777)
                   (Some (js ''51.79.247.157'')),
                 Close, Settle],
        outcome = Some (Inl QueryTimeout)\<rparr>
   \<and> queryRealSampServer ip port ev =
       (case createSampQueryPacket ip port of
          Inl e \<Rightarrow> \<lparr>trace = [CreateSocket, Settle], outcome = Some (Inl (Thrown e))\<rparr>
        | Inr packet \<Rightarrow>
            if validatePort port
            then \<lparr>trace = [CreateSocket, SetTimeout 5000, Send packet port ip]
                     @ (if ev = TimerFired then [] else [ClearTimeout]) @ [Close, Settle],
                   outcome = Some (case ev of
                       Message message \<Rightarrow> (case parseSampResponse message ip port of
                                               Inr serverInfo \<Rightarrow> Inr serverInfo
                                             | Inl error \<Rightarrow> Inl (ParseFailed error))
                     | SocketError \<Rightarrow> Inl NetworkError
                     | SendError \<Rightarrow> Inl SendFailed
                     | TimerFired \<Rightarrow> Inl QueryTimeout)\<rparr>
            else \<lparr>trace = [CreateSocket, SetTimeout 5000, Settle, Close],
                   outcome = Some (Inl (Thrown ERR_SOCKET_BAD_PORT))\<rparr>)"
proof -
  have v: "validatePort (Some 7777)" "\<not> validatePort (Some 0)" "\<not> validatePort None"
    by (simp_all add: validatePort_def)
  have a: "queryRealSampServer (Some (js ''256.1.1.1'')) (Some 7777) ev
     = \<lparr>trace = [CreateSocket, Settle], outcome = Some (Inl (Thrown ERR_OUT_OF_RANGE))\<rparr>"
    by (rule query_thrown_trace(1)[OF example_octet_too_big])
  have jr: "jsrem 8036 5 = 1" by (simp add: jsrem_def)
  have b: "get_api_samp_server (Some (js ''256.1.1.1'')) (Some (js ''7777'')) ev d
     = ([CreateSocket, Settle],
        Success (MockData (mockRecord (serverTemplates ! 1) 8036 (Some (js ''256.1.1.1''))
                             (Some 7777) d))
          (js ''256.1.1.1'') 7777 SourceMock)"
    by (simp add: handler_accepts[OF js_nonempty example_port] a
        gen_defined[OF example_octet_too_big_hash])
  have c: "queryRealSampServer (Some (js ''51.79.247.157'')) (Some 0) ev
     = \<lparr>trace = [CreateSocket, SetTimeout 5000, Settle, Close],
        outcome = Some (Inl (Thrown ERR_SOCKET_BAD_PORT))\<rparr>"
    by (rule query_thrown_trace(2)[OF example_zero_port_packet v(2)])
  have c': "queryRealSampServer (Some (js ''51.79.247.157'')) None ev
     = \<lparr>trace = [CreateSocket, SetTimeout 5000, Settle, Close],
        outcome = Some (Inl (Thrown ERR_SOCKET_BAD_PORT))\<rparr>"
    by (rule query_thrown_trace(2)[OF example_noport_packet v(3)])
  have t: "queryRealSampServer (Some (js ''51.79.247.157'')) (Some 7777) TimerFired
     = \<lparr>trace = [CreateSocket, SetTimeout 5000,
                 Send [0x53, 0x41, 0x4D, 0x50, 51, 79, 247, 157, 0x61, 0x1E, 0x69] (Some 7777)
                   (Some (js ''51.79.247.157'')),
                 Close, Settle],
        outcome = Some (Inl QueryTimeout)\<rparr>"
    by (simp add: query_sent[OF example_packet v(1)] deliver_pending)
  show ?thesis
    by (rule conjI[OF a conjI[OF b conjI[OF c conjI[OF c' conjI[OF t exchange_paths]]]]])
qed

subsection \<open>The mock generator\<close>

text \<open>
  Claim C4. The mock generator is deterministic in its non-jitter fields: for every
  valid target, two invocations, whatever their random draws, both return a record, with
  the same hostname, gamemode, language and tags; these are the fields of the template
  selected by summing the four address octets, adding the port, and taking the sum modulo
  the number of templates.
\<close>

theorem synthesize_deterministic:
  assumes "validTarget ip port"
  shows "\<exists>m1 m2. generateRealisticMockData (Some ip) (Some port) d1 = Inr m1
      \<and> generateRealisticMockData (Some ip) (Some port) d2 = Inr m2
      \<and> hostname m1 = hostname m2 \<and> gamemode m1 = gamemode m2
      \<and> language m1 = language m2 \<and> tags m1 = tags m2
      \<and> hostname m1 = t_name
            (serverTemplates ! ((sum_list (octets ip) + nat port) mod length serverTemplates))
      \<and> gamemode m1 = t_gamemode
            (serverTemplates ! ((sum_list (octets ip) + nat port) mod length serverTemplates))
      \<and> language m1 = t_language
            (serverTemplates ! ((sum_list (octets ip) + nat port) mod length serverTemplates))
      \<and> tags m1 = t_tags
            (serverTemplates ! ((sum_list (octets ip) + nat port) mod length serverTemplates))"
  by (simp add: gen_valid[OF assms] mockRecord_fields length_serverTemplates)

theorem synthesize_deterministic_witness:
  "\<exists>m1 m2. generateRealisticMockData (Some (js ''51.79.247.157'')) (Some 7777) exampleDraws = Inr m1
      \<and> generateRealisticMockData (Some (js ''51.79.247.157'')) (Some 7777)
           (exampleDraws\<lparr>d_players := 99, d_password := True\<rparr>) = Inr m2
      \<and> hostname m1 = hostname m2 \<and> gamemode m1 = gamemode m2
      \<and> language m1 = language m2 \<and> tags m1 = tags m2
      \<and> hostname m1 = js ''Next Generation Gaming | NGG-RP''
      \<and> gamemode m1 = js ''NG:RP v5.0''
      \<and> language m1 = js ''English''
      \<and> tags m1 = [js ''Roleplay'', js ''English'', js ''Innovative'']"
  using synthesize_deterministic[OF example_valid, of exampleDraws
      "exampleDraws\<lparr>d_players := 99, d_password := True\<rparr>"]
  by (simp add: example_octets serverTemplates_def)

text \<open>
  Claim C5. For every valid target the mock generator returns a record; and every record
  it returns, for any arguments and draws, has \<open>10 \<le> players \<le> 1000\<close>, has
  \<open>players \<le> maxPlayers\<close>, and has a player list of length \<open>min players 25\<close> whose
  \<^verbatim>\<open>id\<close> values are 1, 2, 3, ... in order, hence distinct.
\<close>

theorem synthesize_bounds:
  "(validTarget ip port \<longrightarrow> (\<exists>m. generateRealisticMockData (Some ip) (Some port) d = Inr m))
   \<and> (\<forall>m. generateRealisticMockData ip' port' d' = Inr m \<longrightarrow>
         10 \<le> players m \<and> players m \<le> 1000 \<and> players m \<le> maxPlayers m
         \<and> length (playersList m) = min (players m) 25
         \<and> map p_id (playersList m) = [1..<Suc (min (players m) 25)]
         \<and> distinct (map p_id (playersList m)))"
proof (rule conjI)
  show "validTarget ip port \<longrightarrow>
      (\<exists>m. generateRealisticMockData (Some ip) (Some port) d = Inr m)"
    by (simp add: gen_valid)
next
  show "\<forall>m. generateRealisticMockData ip' port' d' = Inr m \<longrightarrow>
         10 \<le> players m \<and> players m \<le> 1000 \<and> players m \<le> maxPlayers m
         \<and> length (playersList m) = min (players m) 25
         \<and> map p_id (playersList m) = [1..<Suc (min (players m) 25)]
         \<and> distinct (map p_id (playersList m))"
  proof (intro allI impI)
    fix m
    assume "generateRealisticMockData ip' port' d' = Inr m"
    then obtain a h where m: "m = mockRecord (serverTemplates ! nat (jsrem h 5)) h ip' port' d'"
      by (rule gen_cases)
    have ids: "map p_id (playersList m) = [1..<Suc (min (players m) 25)]"
      unfolding m using mockRecord_bounds by blast
    have "distinct (map p_id (playersList m))"
      unfolding ids by simp
    with mockRecord_bounds[of "serverTemplates ! nat (jsrem h 5)" h ip' port' d']
    show "10 \<le> players m \<and> players m \<le> 1000 \<and> players m \<le> maxPlayers m
         \<and> length (playersList m) = min (players m) 25
         \<and> map p_id (playersList m) = [1..<Suc (min (players m) 25)]
         \<and> distinct (map p_id (playersList m))"
      unfolding m by blast
  qed
qed

theorem synthesize_bounds_witness:
  "\<exists>m. generateRealisticMockData (Some (js ''51.79.247.157'')) (Some 7777) exampleDraws = Inr m
     \<and> players m = 307 \<and> maxPlayers m = 1000 \<and> length (playersList m) = 25
     \<and> map p_id (playersList m) = [1..<26]"
proof -
  from synthesize_bounds[of "js ''51.79.247.157''" 7777 exampleDraws
      "Some (js ''51.79.247.157'')" "Some 7777" exampleDraws] example_valid
  obtain m where m: "generateRealisticMockData (Some (js ''51.79.247.157'')) (Some 7777) exampleDraws = Inr m"
    and b: "length (playersList m) = min (players m) 25"
      "map p_id (playersList m) = [1..<Suc (min (players m) 25)]"
    by auto
  from m have "m = mockRecord (serverTemplates ! 1) 8311 (Some (js ''51.79.247.157'')) (Some 7777) exampleDraws"
    by (simp add: gen_defined[OF example_hash])
  then have p: "players m = 307" "maxPlayers m = 1000"
    by (simp_all add: mockRecord_fields serverTemplates_def exampleDraws_def)
  with m b show ?thesis by simp
qed
subsection \<open>The single-target handler\<close>

text \<open>
  Claim C1, as amended. The single-target query rejects a request in two cases only, and
  before any I/O: \<open>MISSING_PARAMS\<close> when the address or the port is absent or empty, and
  \<open>INVALID_PORT\<close> when the port does not parse to a number from 1 to 65535. The shape of
  the address is not validated. Of the other requests: when the exchange and the decoding
  succeed, the answer is the decoded record, tagged \<^verbatim>\<open>source: 'real'\<close>, whatever the
  address; when they do not, the answer is a mock record, tagged \<^verbatim>\<open>source: 'mock'\<close>,
  whenever the sum of the numbers that \<^verbatim>\<open>parseInt\<close> reads from the dot-separated parts
  of the address, plus the port, is a finite number whose remainder by 5 is not negative.
  It is so for every valid target, so that for a valid target the handler never raises.
\<close>

theorem queryOne_total:
  "(falsy ip \<or> falsy port \<longrightarrow>
      get_api_samp_server ip port ev d = ([], BadRequest MISSING_PARAMS))
   \<and> (ip = Some a \<and> a \<noteq> [] \<and> port = Some p \<and> p \<noteq> []
        \<and> (\<forall>n. parseInt p = Num n \<longrightarrow> n < 1 \<or> 65535 < n) \<longrightarrow>
      get_api_samp_server ip port ev d = ([], BadRequest INVALID_PORT))
   \<and> (ip = Some a \<and> a \<noteq> [] \<and> port = Some p \<and> parseInt p = Num n \<and> 1 \<le> n \<and> n \<le> 65535
        \<and> outcome (queryRealSampServer (Some a) (Some n) ev) = Some (Inr serverInfo) \<longrightarrow>
      get_api_samp_server ip port ev d =
        (trace (queryRealSampServer (Some a) (Some n) ev),
         Success (RealData serverInfo) a n SourceReal))
   \<and> (ip = Some a \<and> a \<noteq> [] \<and> port = Some p \<and> parseInt p = Num n \<and> 1 \<le> n \<and> n \<le> 65535
        \<and> (\<forall>info. outcome (queryRealSampServer (Some a) (Some n) ev) \<noteq> Some (Inr info))
        \<and> hashOf a (Some n) = Num h \<and> 0 \<le> jsrem h 5 \<longrightarrow>
      (\<exists>mockData. generateRealisticMockData (Some a) (Some n) d = Inr mockData
         \<and> get_api_samp_server ip port ev d =
             (trace (queryRealSampServer (Some a) (Some n) ev),
              Success (MockData mockData) a n SourceMock)))
   \<and> (ip = Some a \<and> port = Some p \<and> parseInt p = Num n \<and> validTarget a n \<longrightarrow>
      (\<exists>h. hashOf a (Some n) = Num h \<and> 0 \<le> jsrem h 5)
      \<and> (\<exists>data src. get_api_samp_server ip port ev d =
             (trace (queryRealSampServer (Some a) (Some n) ev), Success data a n src)))
   \<and> (\<forall>tr c. get_api_samp_server ip port ev d = (tr, BadRequest c) \<longrightarrow>
        tr = []
        \<and> (falsy ip \<or> falsy port
            \<or> (\<exists>p. port = Some p \<and> (\<forall>n. parseInt p = Num n \<longrightarrow> n < 1 \<or> 65535 < n))))"
proof (intro conjI)
  show "\<forall>tr c. get_api_samp_server ip port ev d = (tr, BadRequest c) \<longrightarrow>
        tr = []
        \<and> (falsy ip \<or> falsy port
            \<or> (\<exists>p. port = Some p \<and> (\<forall>n. parseInt p = Num n \<longrightarrow> n < 1 \<or> 65535 < n)))"
    by (auto simp: get_api_samp_server_def falsy_def Let_def
        split: option.splits jsnum.splits if_splits sum.splits)
next
  show "falsy ip \<or> falsy port \<longrightarrow>
      get_api_samp_server ip port ev d = ([], BadRequest MISSING_PARAMS)"
    by (auto simp: get_api_samp_server_def falsy_def split: option.splits)
next
  show "ip = Some a \<and> a \<noteq> [] \<and> port = Some p \<and> p \<noteq> []
        \<and> (\<forall>n. parseInt p = Num n \<longrightarrow> n < 1 \<or> 65535 < n) \<longrightarrow>
      get_api_samp_server ip port ev d = ([], BadRequest INVALID_PORT)"
    by (auto simp: get_api_samp_server_def falsy_def split: jsnum.splits)
next
  show "ip = Some a \<and> a \<noteq> [] \<and> port = Some p \<and> parseInt p = Num n \<and> 1 \<le> n \<and> n \<le> 65535
        \<and> outcome (queryRealSampServer (Some a) (Some n) ev) = Some (Inr serverInfo) \<longrightarrow>
      get_api_samp_server ip port ev d =
        (trace (queryRealSampServer (Some a) (Some n) ev),
         Success (RealData serverInfo) a n SourceReal)"
  proof (intro impI, elim conjE)
    assume h: "ip = Some a" "a \<noteq> []" "port = Some p" "parseInt p = Num n" "1 \<le> n" "n \<le> 65535"
      "outcome (queryRealSampServer (Some a) (Some n) ev) = Some (Inr serverInfo)"
    show "get_api_samp_server ip port ev d =
        (trace (queryRealSampServer (Some a) (Some n) ev),
         Success (RealData serverInfo) a n SourceReal)"
      unfolding h(1,3) handler_accepts[OF h(2,4,5,6)] by (simp add: h(7))
  qed
next
  show "ip = Some a \<and> a \<noteq> [] \<and> port = Some p \<and> parseInt p = Num n \<and> 1 \<le> n \<and> n \<le> 65535
        \<and> (\<forall>info. outcome (queryRealSampServer (Some a) (Some n) ev) \<noteq> Some (Inr info))
        \<and> hashOf a (Some n) = Num h \<and> 0 \<le> jsrem h 5 \<longrightarrow>
      (\<exists>mockData. generateRealisticMockData (Some a) (Some n) d = Inr mockData
         \<and> get_api_samp_server ip port ev d =
             (trace (queryRealSampServer (Some a) (Some n) ev),
              Success (MockData mockData) a n SourceMock))"
  proof (intro impI, elim conjE)
    assume h: "ip = Some a" "a \<noteq> []" "port = Some p" "parseInt p = Num n" "1 \<le> n" "n \<le> 65535"
      "\<forall>info. outcome (queryRealSampServer (Some a) (Some n) ev) \<noteq> Some (Inr info)"
      "hashOf a (Some n) = Num h" "0 \<le> jsrem h 5"
    show "\<exists>mockData. generateRealisticMockData (Some a) (Some n) d = Inr mockData
         \<and> get_api_samp_server ip port ev d =
             (trace (queryRealSampServer (Some a) (Some n) ev),
              Success (MockData mockData) a n SourceMock)"
      unfolding h(1,3) handler_accepts[OF h(2,4,5,6)] gen_defined_rem[OF h(8,9)]
      using h(7) by (simp split: option.splits sum.splits)
  qed
next
  show "ip = Some a \<and> port = Some p \<and> parseInt p = Num n \<and> validTarget a n \<longrightarrow>
      (\<exists>h. hashOf a (Some n) = Num h \<and> 0 \<le> jsrem h 5)
      \<and> (\<exists>data src. get_api_samp_server ip port ev d =
             (trace (queryRealSampServer (Some a) (Some n) ev), Success data a n src))"
  proof (intro impI, elim conjE)
    assume h: "ip = Some a" "port = Some p" "parseInt p = Num n" "validTarget a n"
    have n: "1 \<le> n" "n \<le> 65535" using h(4) by (simp_all add: validTarget_def)
    have a: "a \<noteq> []" using h(4) by (auto simp: validTarget_def)
    have k: "0 \<le> int (sum_list (octets a)) + n" using n by simp
    have "0 \<le> jsrem (int (sum_list (octets a)) + n) 5"
      unfolding jsrem_nonneg[OF k] by simp
    with hash_valid[OF h(4)] have 1: "\<exists>h. hashOf a (Some n) = Num h \<and> 0 \<le> jsrem h 5"
      by blast
    have 2: "\<exists>data src. get_api_samp_server ip port ev d =
             (trace (queryRealSampServer (Some a) (Some n) ev), Success data a n src)"
      unfolding h(1,2) handler_accepts[OF a h(3) n] gen_valid[OF h(4)]
      by (simp split: option.splits sum.splits)
    from 1 2 show "(\<exists>h. hashOf a (Some n) = Num h \<and> 0 \<le> jsrem h 5)
      \<and> (\<exists>data src. get_api_samp_server ip port ev d =
             (trace (queryRealSampServer (Some a) (Some n) ev), Success data a n src))"
      by (rule conjI)
  qed
qed

text \<open>The five cases: no address; the port \<^verbatim>\<open>0\<close>; the address \<^verbatim>\<open>localhost\<close>, whose
  exchange is answered; the address \<^verbatim>\<open>-5.2.3.4\<close>, for which no packet can be built
  and whose sum with the port 7777 is 7781; and the valid target of the example, whose
  exchange times out.\<close>

theorem queryOne_total_witness:
  "get_api_samp_server None (Some (js ''7777'')) TimerFired exampleDraws
     = ([], BadRequest MISSING_PARAMS)
   \<and> get_api_samp_server (Some (js ''51.79.247.157'')) (Some (js ''0'')) TimerFired
       exampleDraws
     = ([], BadRequest INVALID_PORT)
   \<and> get_api_samp_server (Some (js ''localhost'')) (Some (js ''7777''))
       (Message (examplePayload 0x53 0x41 0x4D 0x50)) exampleDraws
     = ([CreateSocket, SetTimeout 5000,
         Send [0x53, 0x41, 0x4D, 0x50, 0, 0, 0, 0, 0x61, 0x1E, 0x69] (Some 7777)
           (Some (js ''localhost'')),
         ClearTimeout, Close, Settle],
        Success (RealData
          \<lparr> online = True, password = False, players = 42, maxPlayers = 100,
            hostname = js ''MyServer'', gamemode = js ''DM'', language = js ''EN'',
            r_ip = Some (js ''localhost''), r_port = Some 7777,
            version = js ''SA-MP 0.3.7'' \<rparr>)
          (js ''localhost'') 7777 SourceReal)
   \<and> get_api_samp_server (Some (js ''-5.2.3.4'')) (Some (js ''7777'')) TimerFired exampleDraws
     = ([CreateSocket, Settle],
        Success (MockData (mockRecord (serverTemplates ! 1) 7781 (Some (js ''-5.2.3.4''))
                             (Some 7777) exampleDraws))
          (js ''-5.2.3.4'') 7777 SourceMock)
   \<and> (\<exists>mockData. get_api_samp_server (Some (js ''51.79.247.157'')) (Some (js ''7777''))
                      TimerFired exampleDraws
          = (trace (queryRealSampServer (Some (js ''51.79.247.157'')) (Some 7777) TimerFired),
             Success (MockData mockData) (js ''51.79.247.157'') 7777 SourceMock))"
proof -
  have v: "validatePort (Some 7777)" by (simp add: validatePort_def)
  have 1: "get_api_samp_server None (Some (js ''7777'')) TimerFired exampleDraws
     = ([], BadRequest MISSING_PARAMS)"
    using queryOne_total[of None "Some (js ''7777'')" TimerFired exampleDraws]
    by (simp add: falsy_def)
  have 2: "get_api_samp_server (Some (js ''51.79.247.157'')) (Some (js ''0'')) TimerFired
       exampleDraws
     = ([], BadRequest INVALID_PORT)"
    using queryOne_total[of "Some (js ''51.79.247.157'')" "Some (js ''0'')" TimerFired
      exampleDraws "js ''51.79.247.157''" "js ''0''"]
    by (simp add: falsy_def example_zero_port js_nonempty)
  have q3: "queryRealSampServer (Some (js ''localhost'')) (Some 7777)
       (Message (examplePayload 0x53 0x41 0x4D 0x50))
     = \<lparr>trace = [CreateSocket, SetTimeout 5000,
                 Send [0x53, 0x41, 0x4D, 0x50, 0, 0, 0, 0, 0x61, 0x1E, 0x69] (Some 7777)
                   (Some (js ''localhost'')),
                 ClearTimeout, Close, Settle],
        outcome = Some (Inr
          \<lparr> online = True, password = False, players = 42, maxPlayers = 100,
            hostname = js ''MyServer'', gamemode = js ''DM'', language = js ''EN'',
            r_ip = Some (js ''localhost''), r_port = Some 7777,
            version = js ''SA-MP 0.3.7'' \<rparr>)\<rparr>"
    by (simp add: query_sent[OF example_localhost_packet v] deliver_pending example_decode)
  have 3: "get_api_samp_server (Some (js ''localhost'')) (Some (js ''7777''))
       (Message (examplePayload 0x53 0x41 0x4D 0x50)) exampleDraws
     = ([CreateSocket, SetTimeout 5000,
         Send [0x53, 0x41, 0x4D, 0x50, 0, 0, 0, 0, 0x61, 0x1E, 0x69] (Some 7777)
           (Some (js ''localhost'')),
         ClearTimeout, Close, Settle],
        Success (RealData
          \<lparr> online = True, password = False, players = 42, maxPlayers = 100,
            hostname = js ''MyServer'', gamemode = js ''DM'', language = js ''EN'',
            r_ip = Some (js ''localhost''), r_port = Some 7777,
            version = js ''SA-MP 0.3.7'' \<rparr>)
          (js ''localhost'') 7777 SourceReal)"
    using queryOne_total[of "Some (js ''localhost'')" "Some (js ''7777'')"
      "Message (examplePayload 0x53 0x41 0x4D 0x50)" exampleDraws "js ''localhost''"
      "js ''7777''" 7777
      "\<lparr> online = True, password = False, players = 42, maxPlayers = 100,
            hostname = js ''MyServer'', gamemode = js ''DM'', language = js ''EN'',
            r_ip = Some (js ''localhost''), r_port = Some 7777,
            version = js ''SA-MP 0.3.7'' \<rparr>"]
    by (simp add: q3 example_port js_nonempty)
  have q4: "queryRealSampServer (Some (js ''-5.2.3.4'')) (Some 7777) TimerFired
     = \<lparr>trace = [CreateSocket, Settle], outcome = Some (Inl (Thrown ERR_OUT_OF_RANGE))\<rparr>"
    by (rule query_thrown_trace(1)[OF example_negative_packet])
  have jr: "jsrem 7781 5 = 1" by (simp add: jsrem_def)
  have 4: "get_api_samp_server (Some (js ''-5.2.3.4'')) (Some (js ''7777'')) TimerFired exampleDraws
     = ([CreateSocket, Settle],
        Success (MockData (mockRecord (serverTemplates ! 1) 7781 (Some (js ''-5.2.3.4''))
                             (Some 7777) exampleDraws))
          (js ''-5.2.3.4'') 7777 SourceMock)"
    using queryOne_total[of "Some (js ''-5.2.3.4'')" "Some (js ''7777'')" TimerFired
      exampleDraws "js ''-5.2.3.4''" "js ''7777''" 7777 _ 7781]
    by (simp add: q4 example_port js_nonempty example_negative_hash jr
        gen_defined_rem[OF example_negative_hash])
  have 5: "\<exists>mockData. get_api_samp_server (Some (js ''51.79.247.157'')) (Some (js ''7777''))
                      TimerFired exampleDraws
          = (trace (queryRealSampServer (Some (js ''51.79.247.157'')) (Some 7777) TimerFired),
             Success (MockData mockData) (js ''51.79.247.157'') 7777 SourceMock)"
    using queryOne_total[of "Some (js ''51.79.247.157'')" "Some (js ''7777'')" TimerFired
      exampleDraws "js ''51.79.247.157''" "js ''7777''" 7777 _ 8311]
      valid_outcome[OF example_valid, of TimerFired]
    by (auto simp: example_port js_nonempty example_hash jsrem_def)
  show ?thesis
    by (rule conjI[OF 1 conjI[OF 2 conjI[OF 3 conjI[OF 4 5]]]])
qed

text \<open>The claim as it was stated fails at the address \<^verbatim>\<open>play.example.com\<close>. It is not
  rejected: a socket is created and the packet is sent. When no answer comes, the mock
  generator reads a template at index \<open>NaN\<close> and throws, and the exception leaves the
  handler. The address \<^verbatim>\<open>1.2.3\<close>, of three parts, is not rejected either: the packet is
  sent, and the answer is a mock record.\<close>

theorem queryOne_counterexample:
  "get_api_samp_server (Some (js ''play.example.com'')) (Some (js ''7777'')) TimerFired exampleDraws
     = ([CreateSocket, SetTimeout 5000,
         Send [0x53, 0x41, 0x4D, 0x50, 0, 0, 0, 0, 0x61, 0x1E, 0x69] (Some 7777)
           (Some (js ''play.example.com'')),
         Close, Settle],
        Uncaught TypeError)
   \<and> fst (get_api_samp_server (Some (js ''1.2.3'')) (Some (js ''7777'')) TimerFired exampleDraws)
     = [CreateSocket, SetTimeout 5000,
         Send [0x53, 0x41, 0x4D, 0x50, 1, 2, 3, 0, 0x61, 0x1E, 0x69] (Some 7777)
           (Some (js ''1.2.3'')),
         Close, Settle]
   \<and> (\<exists>mockData. snd (get_api_samp_server (Some (js ''1.2.3'')) (Some (js ''7777'')) TimerFired
                         exampleDraws)
         = Success (MockData mockData) (js ''1.2.3'') 7777 SourceMock)"
proof -
  have v: "validatePort (Some 7777)" by (simp add: validatePort_def)
  have a: "get_api_samp_server (Some (js ''play.example.com'')) (Some (js ''7777'')) TimerFired exampleDraws
     = ([CreateSocket, SetTimeout 5000,
         Send [0x53, 0x41, 0x4D, 0x50, 0, 0, 0, 0, 0x61, 0x1E, 0x69] (Some 7777)
           (Some (js ''play.example.com'')),
         Close, Settle],
        Uncaught TypeError)"
    by (simp add: handler_accepts[OF js_nonempty example_port]
        query_sent[OF example_hostname_packet v] deliver_pending
        generateRealisticMockData_def example_hostname_hash)
  have b: "get_api_samp_server (Some (js ''1.2.3'')) (Some (js ''7777'')) TimerFired exampleDraws
     = ([CreateSocket, SetTimeout 5000,
         Send [0x53, 0x41, 0x4D, 0x50, 1, 2, 3, 0, 0x61, 0x1E, 0x69] (Some 7777)
           (Some (js ''1.2.3'')),
         Close, Settle],
        Success (MockData (mockRecord (serverTemplates ! 3) 7783 (Some (js ''1.2.3'')) (Some 7777) exampleDraws))
          (js ''1.2.3'') 7777 SourceMock)"
    by (simp add: handler_accepts[OF js_nonempty example_port]
        query_sent[OF example_short_packet v] deliver_pending
        gen_defined[OF example_short_hash])
  show ?thesis by (simp add: a b)
qed

subsection \<open>The batch handler\<close>

text \<open>
  Claim C6. For every list of at most 5 valid targets, the batch handler answers with a
  list of the same length, in the order of the input: the element of index \<open>i\<close> is the
  decoded record of target \<open>i\<close> when its query succeeded, and a mock record for target
  \<open>i\<close> when it failed. It is determined by target \<open>i\<close>, by what the runtime delivered for
  target \<open>i\<close> and by the draws of its own mock record: a failure of another target neither
  ends the loop nor changes it.
\<close>

theorem queryMany_isolated:
  assumes "length servers \<le> 5" and "list_all validQuery servers"
  shows "\<exists>results. post_api_samp_servers (Some servers) ev rnd
                      = BatchSuccess results (length servers)
      \<and> length results = length servers
      \<and> (\<forall>i<length servers.
            (case outcome (queryRealSampServer (q_ip (servers ! i)) (q_port (servers ! i)) (ev i)) of
               Some (Inr data) \<Rightarrow> results ! i = RealItem data (servers ! i)
             | _ \<Rightarrow>
                 (\<exists>mockData. generateRealisticMockData (q_ip (servers ! i)) (q_port (servers ! i))
                                (rnd i) = Inr mockData
                    \<and> results ! i = MockItem mockData (servers ! i))))"
proof -
  define f where "f i = projr (queryOrMock (servers ! i) (ev i) (rnd i))" for i
  have item: "queryOrMock (servers ! i) (ev i) (rnd i) = Inr (f i)" if "i < length servers" for i
  proof -
    from assms(2) that have "validQuery (servers ! i)"
      by (simp add: list_all_length)
    from queryOrMock_valid[OF this, of "ev i" "rnd i"] show ?thesis
      by (auto simp: f_def)
  qed
  then have loop: "batchLoop servers 0 ev rnd [] = Inr (map f [0..<length servers])"
    using batchLoop_items[of servers ev 0 rnd f "[]"] by simp
  have post: "post_api_samp_servers (Some servers) ev rnd
          = BatchSuccess (map f [0..<length servers]) (length servers)"
    using assms(1) by (simp add: post_api_samp_servers_def loop)
  have each: "\<forall>i<length servers.
            (case outcome (queryRealSampServer (q_ip (servers ! i)) (q_port (servers ! i)) (ev i)) of
               Some (Inr data) \<Rightarrow> map f [0..<length servers] ! i = RealItem data (servers ! i)
             | _ \<Rightarrow>
                 (\<exists>mockData. generateRealisticMockData (q_ip (servers ! i)) (q_port (servers ! i))
                                (rnd i) = Inr mockData
                    \<and> map f [0..<length servers] ! i = MockItem mockData (servers ! i)))"
  proof (intro allI impI)
    fix i assume i: "i < length servers"
    have nth: "map f [0..<length servers] ! i = f i" using i by simp
    from item[OF i] show "(case outcome (queryRealSampServer (q_ip (servers ! i)) (q_port (servers ! i)) (ev i)) of
               Some (Inr data) \<Rightarrow> map f [0..<length servers] ! i = RealItem data (servers ! i)
             | _ \<Rightarrow>
                 (\<exists>mockData. generateRealisticMockData (q_ip (servers ! i)) (q_port (servers ! i))
                                (rnd i) = Inr mockData
                    \<and> map f [0..<length servers] ! i = MockItem mockData (servers ! i)))"
      unfolding nth queryOrMock_cases .
  qed
  show ?thesis
  proof (intro exI[of _ "map f [0..<length servers]"] conjI)
    show "post_api_samp_servers (Some servers) ev rnd
          = BatchSuccess (map f [0..<length servers]) (length servers)"
      by (rule post)
    show "length (map f [0..<length servers]) = length servers"
      by simp
    show "\<forall>i<length servers.
            (case outcome (queryRealSampServer (q_ip (servers ! i)) (q_port (servers ! i)) (ev i)) of
               Some (Inr data) \<Rightarrow> map f [0..<length servers] ! i = RealItem data (servers ! i)
             | _ \<Rightarrow>
                 (\<exists>mockData. generateRealisticMockData (q_ip (servers ! i)) (q_port (servers ! i))
                                (rnd i) = Inr mockData
                    \<and> map f [0..<length servers] ! i = MockItem mockData (servers ! i)))"
      by (rule each)
  qed
qed

text \<open>Three targets; the second times out, the other two are answered.\<close>

theorem queryMany_isolated_witness:
  "\<exists>results. post_api_samp_servers
       (Some [\<lparr>q_ip = Some (js ''51.79.247.157''), q_port = Some 7777\<rparr>,
              \<lparr>q_ip = Some (js ''1.2.3.4''), q_port = Some 7777\<rparr>,
              \<lparr>q_ip = Some (js ''10.0.0.1''), q_port = Some 7778\<rparr>])
       (\<lambda>i. if i = 1 then TimerFired else Message (examplePayload 0x53 0x41 0x4D 0x50))
       (\<lambda>i. exampleDraws)
     = BatchSuccess results 3
     \<and> length results = 3
     \<and> (\<exists>data. results ! 0
           = RealItem data \<lparr>q_ip = Some (js ''51.79.247.157''), q_port = Some 7777\<rparr>)
     \<and> (\<exists>mockData. results ! 1
           = MockItem mockData \<lparr>q_ip = Some (js ''1.2.3.4''), q_port = Some 7777\<rparr>)
     \<and> (\<exists>data. results ! 2
           = RealItem data \<lparr>q_ip = Some (js ''10.0.0.1''), q_port = Some 7778\<rparr>)"
proof -
  let ?servers = "[\<lparr>q_ip = Some (js ''51.79.247.157''), q_port = Some 7777\<rparr>,
              \<lparr>q_ip = Some (js ''1.2.3.4''), q_port = Some 7777\<rparr>,
              \<lparr>q_ip = Some (js ''10.0.0.1''), q_port = Some 7778\<rparr>]"
  let ?ev = "\<lambda>i::nat. if i = 1 then TimerFired else Message (examplePayload 0x53 0x41 0x4D 0x50)"
  have v2: "validTarget (js ''1.2.3.4'') 7777" by code_simp
  have v3: "validTarget (js ''10.0.0.1'') 7778" by code_simp
  have valid: "list_all validQuery ?servers"
    by (simp add: validQuery_def example_valid v2 v3)
  from queryMany_isolated[of ?servers, OF _ valid, of ?ev "\<lambda>i. exampleDraws"]
  obtain results where r: "post_api_samp_servers (Some ?servers) ?ev (\<lambda>i. exampleDraws)
       = BatchSuccess results (length ?servers)" "length results = length ?servers"
    and each: "\<forall>i<length ?servers.
            (case outcome (queryRealSampServer (q_ip (?servers ! i)) (q_port (?servers ! i)) (?ev i)) of
               Some (Inr data) \<Rightarrow> results ! i = RealItem data (?servers ! i)
             | _ \<Rightarrow>
                 (\<exists>mockData. generateRealisticMockData (q_ip (?servers ! i)) (q_port (?servers ! i))
                                exampleDraws = Inr mockData
                    \<and> results ! i = MockItem mockData (?servers ! i)))"
    by auto
  from each[rule_format, of 0] have i0: "\<exists>data. results ! 0 = RealItem data (?servers ! 0)"
    by (simp add: valid_outcome[OF example_valid] example_decode)
  from each[rule_format, of 1] have i1: "\<exists>mockData. results ! 1 = MockItem mockData (?servers ! 1)"
    by (auto simp: valid_outcome[OF v2])
  from each[rule_format, of 2] have i2: "\<exists>data. results ! 2 = RealItem data (?servers ! 2)"
    by (simp add: valid_outcome[OF v3] example_decode)
  from r i0 i1 i2 show ?thesis by simp
qed

text \<open>
  Claim C10. The batch handler validates no address and no port, and every element of an
  accepted \<^verbatim>\<open>servers\<close> array is meant to resolve to a record, a mock one when the
  exchange cannot be performed. The program does not do this for an element whose address
  is not numeric or is missing, or whose port is missing: the mock generator throws in
  the \<^verbatim>\<open>catch\<close> block, the exception leaves the handler, and no result is answered for
  any element, the valid first one included.
\<close>

theorem queryMany_uncaught:
  "post_api_samp_servers
     (Some [\<lparr>q_ip = Some (js ''51.79.247.157''), q_port = Some 7777\<rparr>,
            \<lparr>q_ip = Some (js ''play.example.com''), q_port = Some 7777\<rparr>])
     (\<lambda>i. TimerFired) (\<lambda>i. exampleDraws) = BatchUncaught TypeError
   \<and> post_api_samp_servers (Some [\<lparr>q_ip = None, q_port = Some 7777\<rparr>])
     (\<lambda>i. TimerFired) (\<lambda>i. exampleDraws) = BatchUncaught TypeError
   \<and> post_api_samp_servers (Some [\<lparr>q_ip = Some (js ''51.79.247.157''), q_port = None\<rparr>])
     (\<lambda>i. TimerFired) (\<lambda>i. exampleDraws) = BatchUncaught TypeError"
proof -
  have v: "validatePort (Some 7777)" by (simp add: validatePort_def)
  have ok: "\<exists>item. queryOrMock \<lparr>q_ip = Some (js ''51.79.247.157''), q_port = Some 7777\<rparr>
      TimerFired exampleDraws = Inr item"
    by (rule queryOrMock_valid) (simp add: validQuery_def example_valid)
  have bad: "queryOrMock \<lparr>q_ip = Some (js ''play.example.com''), q_port = Some 7777\<rparr>
      TimerFired exampleDraws = Inl TypeError"
    by (simp add: queryOrMock_def timeout_outcome[OF example_hostname_packet v]
        generateRealisticMockData_def example_hostname_hash)
  have noip: "queryOrMock \<lparr>q_ip = None, q_port = Some 7777\<rparr> TimerFired exampleDraws
      = Inl TypeError"
    by (simp add: queryOrMock_def queryRealSampServer_def createSampQueryPacket_def
        settle_def generateRealisticMockData_def Let_def)
  have "outcome (queryRealSampServer (Some (js ''51.79.247.157'')) None TimerFired)
      = Some (Inl (Thrown ERR_SOCKET_BAD_PORT))"
    by (simp add: queryRealSampServer_def example_noport_packet validatePort_def Let_def
        did_def settle_def onTimeout_def)
  then have noport: "queryOrMock \<lparr>q_ip = Some (js ''51.79.247.157''), q_port = None\<rparr>
      TimerFired exampleDraws = Inl TypeError"
    by (cases "foldl (\<lambda>a b. addNum a (parseInt b)) (Num 0) (split_on 0x2E (js ''51.79.247.157''))")
       (simp_all add: queryOrMock_def generateRealisticMockData_def hashOf_def toNumber_def)
  from ok bad noip noport show ?thesis
    by (auto simp: post_api_samp_servers_def)
qed

end
